theory Spec2Isabelle
  imports Complex_Main
begin

section \<open>Python values used by the scripts\<close>

text \<open>
  The three scripts under \<^verbatim>\<open>src/blender-scripts\<close> compute with Python floats,
  which are IEEE 754 binary64 numbers. A float is modelled as a real number (its value,
  when it is finite) or one of the three special values. The two zeros are identified, as
  Python's \<^verbatim>\<open>==\<close> identifies them. The accumulator of the bounding box starts at
  \<^verbatim>\<open>float('inf')\<close> and \<^verbatim>\<open>float('-inf')\<close>, so the special values are part
  of the program's data.
\<close>

datatype pyfloat = Fin real | PInf | NInf | NaN

text \<open>
  Every arithmetic operation returns the exact result rounded to the nearest binary64
  number, ties to the even significand, and an infinity when the rounded magnitude
  reaches \<open>2^1024\<close>. \<open>pow2 e\<close> is \<open>2^e\<close>; \<open>float_exponent a\<close> is the exponent
  of the binade of \<open>a > 0\<close>, not below the least normal exponent \<open>-1022\<close>, so that
  the spacing of the numbers around \<open>a\<close> is \<open>2^(float_exponent a - 52)\<close> and
  subnormal results are multiples of \<open>2^-1074\<close>. A decimal literal of the source
  such as \<^verbatim>\<open>0.1\<close> denotes \<open>round_double 0.1\<close>.
\<close>

definition pow2 :: "int \<Rightarrow> real" where
  "pow2 e = (if 0 \<le> e then 2 ^ nat e else 1 / 2 ^ nat (- e))"

definition round_half_even :: "real \<Rightarrow> int" where
  "round_half_even q =
     (let f = \<lfloor>q\<rfloor>; d = q - of_int f
      in if d < 1 / 2 then f else if 1 / 2 < d then f + 1 else if even f then f else f + 1)"

definition float_exponent :: "real \<Rightarrow> int" where
  "float_exponent a = max \<lfloor>log 2 a\<rfloor> (- 1022)"

definition round_double :: "real \<Rightarrow> pyfloat" where
  "round_double x =
     (if x = 0 then Fin 0
      else
        (let a = \<bar>x\<bar>;
             u = pow2 (float_exponent a - 52);
             r = of_int (round_half_even (a / u)) * u
         in if pow2 1024 \<le> r then (if 0 < x then PInf else NInf)
            else Fin (if 0 < x then r else - r)))"

text \<open>\<^verbatim>\<open>a < b\<close> on floats: every comparison with NaN is false.\<close>

fun flt :: "pyfloat \<Rightarrow> pyfloat \<Rightarrow> bool" where
  "flt (Fin x) (Fin y) = (x < y)"
| "flt NInf (Fin y) = True"
| "flt NInf PInf = True"
| "flt (Fin x) PInf = True"
| "flt a b = False"

text \<open>
  The builtins \<^verbatim>\<open>min(a, b)\<close> and \<^verbatim>\<open>max(a, b)\<close> keep the first argument unless the
  second is strictly smaller (greater).
\<close>

definition py_min :: "pyfloat \<Rightarrow> pyfloat \<Rightarrow> pyfloat" where
  "py_min a b = (if flt b a then b else a)"

definition py_max :: "pyfloat \<Rightarrow> pyfloat \<Rightarrow> pyfloat" where
  "py_max a b = (if flt a b then b else a)"

fun fneg :: "pyfloat \<Rightarrow> pyfloat" where
  "fneg (Fin x) = Fin (- x)"
| "fneg PInf = NInf"
| "fneg NInf = PInf"
| "fneg NaN = NaN"

fun fadd :: "pyfloat \<Rightarrow> pyfloat \<Rightarrow> pyfloat" where
  "fadd (Fin x) (Fin y) = round_double (x + y)"
| "fadd NaN b = NaN"
| "fadd a NaN = NaN"
| "fadd PInf NInf = NaN"
| "fadd NInf PInf = NaN"
| "fadd PInf b = PInf"
| "fadd a PInf = PInf"
| "fadd NInf b = NInf"
| "fadd a NInf = NInf"

definition fsub :: "pyfloat \<Rightarrow> pyfloat \<Rightarrow> pyfloat" where
  "fsub a b = fadd a (fneg b)"

definition inf_of_sign :: "real \<Rightarrow> pyfloat" where
  "inf_of_sign s = (if s = 0 then NaN else if 0 < s then PInf else NInf)"

fun fmul :: "pyfloat \<Rightarrow> pyfloat \<Rightarrow> pyfloat" where
  "fmul (Fin x) (Fin y) = round_double (x * y)"
| "fmul NaN b = NaN"
| "fmul a NaN = NaN"
| "fmul (Fin x) PInf = inf_of_sign x"
| "fmul (Fin x) NInf = inf_of_sign (- x)"
| "fmul PInf (Fin y) = inf_of_sign y"
| "fmul NInf (Fin y) = inf_of_sign (- y)"
| "fmul PInf PInf = PInf"
| "fmul NInf NInf = PInf"
| "fmul PInf NInf = NInf"
| "fmul NInf PInf = NInf"

text \<open>
  The only divisions of the source are by the literal \<^verbatim>\<open>2\<close>, so
  \<^verbatim>\<open>ZeroDivisionError\<close> cannot arise; \<open>fdiv2 a\<close> is \<^verbatim>\<open>a / 2\<close>.
\<close>

fun fdiv2 :: "pyfloat \<Rightarrow> pyfloat" where
  "fdiv2 (Fin x) = round_double (x / 2)"
| "fdiv2 PInf = PInf"
| "fdiv2 NInf = NInf"
| "fdiv2 NaN = NaN"

section \<open>Foundation sizing (add\_foundation\_blender.py, lines 51--64)\<close>

text \<open>
  The local variables that \<^verbatim>\<open>add_circular_foundation\<close> computes from the two
  accumulators, under the names the source gives them. \<open>min_coords\<close> and
  \<open>max_coords\<close> are the three-element lists of the source.
\<close>

record foundation_params =
  x_size :: pyfloat
  y_size :: pyfloat
  z_min :: pyfloat
  max_dimension :: pyfloat
  foundation_radius :: pyfloat
  foundation_thickness :: pyfloat
  center_x :: pyfloat
  center_y :: pyfloat
  foundation_z :: pyfloat

definition foundation_sizing ::
  "pyfloat list \<Rightarrow> pyfloat list \<Rightarrow> pyfloat \<Rightarrow> pyfloat \<Rightarrow> pyfloat \<Rightarrow> foundation_params" where
  "foundation_sizing min_coords max_coords margin_ratio thickness_ratio min_thickness =
    (let xs = fsub (max_coords ! 0) (min_coords ! 0);
         ys = fsub (max_coords ! 1) (min_coords ! 1);
         zm = min_coords ! 2;
         md = py_max xs ys;
         fr = fmul (fdiv2 md) (fadd (Fin 1) margin_ratio);
         ft = py_max (fmul md thickness_ratio) min_thickness;
         cx = fdiv2 (fadd (min_coords ! 0) (max_coords ! 0));
         cy = fdiv2 (fadd (min_coords ! 1) (max_coords ! 1));
         fz = fsub zm (fdiv2 ft)
     in \<lparr> x_size = xs, y_size = ys, z_min = zm, max_dimension = md,
          foundation_radius = fr, foundation_thickness = ft,
          center_x = cx, center_y = cy, foundation_z = fz \<rparr>)"







section \<open>Bounding-box accumulator (add\_foundation\_blender.py, lines 38--49)\<close>

text \<open>
  A world-space corner is a \<^verbatim>\<open>mathutils.Vector\<close> of three finite components;
  \<open>vec_nth c i\<close> is \<^verbatim>\<open>corner[i]\<close> for the indices 0, 1, 2 that the loop uses.
  A scene object carries its type tag, its world transform (\<^verbatim>\<open>matrix_world @ v\<close>,
  an operation of the host, taken as a function) and the corners of its local
  bounding box.
\<close>

type_synonym vec3 = "real \<times> real \<times> real"

fun vec_nth :: "vec3 \<Rightarrow> nat \<Rightarrow> real" where
  "vec_nth (x, y, z) i = (if i = 0 then x else if i = 1 then y else z)"

record scene_obj =
  obj_name :: string
  obj_type :: string
  matrix_world :: "vec3 \<Rightarrow> vec3"
  bound_box :: "vec3 list"

definition bbox_corners :: "scene_obj \<Rightarrow> vec3 list" where
  "bbox_corners obj = map (matrix_world obj) (bound_box obj)"

text \<open>
  One pass of the innermost loop body:
  \<^verbatim>\<open>min_coords[i] = min(min_coords[i], corner[i])\<close> and the same for the maximum.
\<close>

definition update_axis ::
  "vec3 \<Rightarrow> nat \<Rightarrow> pyfloat list \<times> pyfloat list \<Rightarrow> pyfloat list \<times> pyfloat list" where
  "update_axis corner i acc =
     (case acc of (min_coords, max_coords) \<Rightarrow>
        (min_coords[i := py_min (min_coords ! i) (Fin (vec_nth corner i))],
         max_coords[i := py_max (max_coords ! i) (Fin (vec_nth corner i))]))"

text \<open>\<^verbatim>\<open>for i in range(3)\<close>, for one corner.\<close>

definition update_corner ::
  "pyfloat list \<times> pyfloat list \<Rightarrow> vec3 \<Rightarrow> pyfloat list \<times> pyfloat list" where
  "update_corner acc corner = fold (update_axis corner) [0..<3] acc"

text \<open>\<^verbatim>\<open>for corner in bbox_corners\<close>, for one object.\<close>

definition update_obj ::
  "pyfloat list \<times> pyfloat list \<Rightarrow> scene_obj \<Rightarrow> pyfloat list \<times> pyfloat list" where
  "update_obj acc obj = fold (\<lambda>corner a. update_corner a corner) (bbox_corners obj) acc"

text \<open>
  \<^verbatim>\<open>for obj in mesh_objects\<close>, from \<^verbatim>\<open>[float('inf')] * 3\<close> and
  \<^verbatim>\<open>[float('-inf')] * 3\<close>.
\<close>

definition bounding_box :: "scene_obj list \<Rightarrow> pyfloat list \<times> pyfloat list" where
  "bounding_box mesh_objects =
     fold (\<lambda>obj a. update_obj a obj) mesh_objects (replicate 3 PInf, replicate 3 NInf)"

section \<open>The foundation stage (add\_foundation\_blender.py)\<close>

text \<open>
  The calls into the host application are recorded, in order, as a list of operations;
  what the host does with them is outside the repository. The two formatted prints of
  numbers keep the numbers instead of their decimal rendering. Host operators are taken
  to return normally.
\<close>

datatype host_op =
    Print string
  | PrintDimensions pyfloat pyfloat
  | PrintFoundation pyfloat pyfloat
  | SelectAll
  | DeleteSelected
  | ImportGltf string
  | CylinderAdd pyfloat pyfloat "pyfloat \<times> pyfloat \<times> pyfloat" nat
  | RenameActive string
  | SetActiveObject string
  | JoinObjects
  | StlExport string
  | GltfExport string string

definition clear_scene :: "host_op list" where
  "clear_scene = [SelectAll, DeleteSelected]"

text \<open>
  \<^verbatim>\<open>os.path.splitext(p)[1]\<close> on a POSIX path: the extension starts at the last dot
  of the last path component, unless that component has only dots before it.
  \<open>rfind\<close> is \<^verbatim>\<open>str.rfind\<close> for one character (\<open>-1\<close> when absent).
\<close>

definition rfind :: "char \<Rightarrow> string \<Rightarrow> int" where
  "rfind c p = (if c \<in> set p then int (length p) - 1 - int (length (takeWhile (\<lambda>d. d \<noteq> c) (rev p)))
                else - 1)"

definition splitext_ext :: "string \<Rightarrow> string" where
  "splitext_ext p =
     (let sepIndex = rfind (CHR ''/'') p;
          dotIndex = rfind (CHR ''.'') p
      in if dotIndex > sepIndex \<and>
            list_ex (\<lambda>filenameIndex. p ! filenameIndex \<noteq> CHR ''.'')
              [nat (sepIndex + 1) ..< nat dotIndex]
         then drop (nat dotIndex) p else [])"

text \<open>
  \<^verbatim>\<open>str.lower\<close> on the ASCII letters. (No character outside ASCII lower-cases to a
  letter of \<^verbatim>\<open>.stl\<close>, \<^verbatim>\<open>.glb\<close> or \<^verbatim>\<open>.gltf\<close>, so the dispatch below does not
  depend on the rest of Unicode.)
\<close>

definition char_lower :: "char \<Rightarrow> char" where
  "char_lower c =
     (case map_of (zip ''ABCDEFGHIJKLMNOPQRSTUVWXYZ'' ''abcdefghijklmnopqrstuvwxyz'') c of
        Some d \<Rightarrow> d
      | None \<Rightarrow> c)"

definition lower :: "string \<Rightarrow> string" where
  "lower s = map char_lower s"

text \<open>
  \<open>import_scene path\<close> is the list of objects of the scene after the host has cleared
  it and imported the file at \<open>path\<close>. The result is the list of host operations
  and the returned boolean.
\<close>

definition add_circular_foundation ::
  "(string \<Rightarrow> scene_obj list) \<Rightarrow> string \<Rightarrow> string \<Rightarrow> pyfloat \<Rightarrow> pyfloat \<Rightarrow> pyfloat
     \<Rightarrow> host_op list \<times> bool" where
  "add_circular_foundation import_scene glb_path output_path margin_ratio thickness_ratio min_thickness =
     (let imported = clear_scene @ [Print (''Importing '' @ glb_path @ ''...''), ImportGltf glb_path];
          mesh_objects = filter (\<lambda>obj. obj_type obj = ''MESH'') (import_scene glb_path)
      in if mesh_objects = [] then
           (imported @ [Print ''No mesh objects found in GLB file!''], False)
         else
           (let (min_coords, max_coords) = bounding_box mesh_objects;
                p = foundation_sizing min_coords max_coords margin_ratio thickness_ratio min_thickness;
                built = imported @
                  [PrintDimensions (x_size p) (y_size p),
                   PrintFoundation (foundation_radius p) (foundation_thickness p),
                   CylinderAdd (foundation_radius p) (foundation_thickness p)
                     (center_x p, center_y p, foundation_z p) 64,
                   RenameActive ''Foundation'',
                   SelectAll,
                   SetActiveObject (obj_name (hd mesh_objects)),
                   JoinObjects];
                file_ext = lower (splitext_ext output_path)
            in if file_ext = ''.stl'' then
                 (built @ [Print (''Exporting to STL: '' @ output_path), StlExport output_path,
                           Print ''Foundation added successfully!''], True)
               else if file_ext \<in> set [''.glb'', ''.gltf''] then
                 (built @ [Print (''Exporting to GLB: '' @ output_path), GltfExport output_path ''GLB'',
                           Print ''Foundation added successfully!''], True)
               else
                 (built @ [Print (''Unsupported format: '' @ file_ext)], False)))"

section \<open>Command line of the foundation tool (add\_foundation\_blender.py, main)\<close>

datatype py_error =
  IndexError | ValueError | AttributeError | CalledProcessError | OSError | OtherError

datatype outcome = Returned | Raised py_error | SysExit int

text \<open>\<^verbatim>\<open>argv.index("--")\<close>, for a list that contains the separator.\<close>

definition index_of :: "string \<Rightarrow> string list \<Rightarrow> nat" where
  "index_of a xs = length (takeWhile (\<lambda>x. x \<noteq> a) xs)"

definition usage_add_foundation :: "host_op list" where
  "usage_add_foundation =
     [Print ''Usage in Blender: blender --background --python add_foundation_blender.py -- input.glb output.stl [margin_ratio] [thickness_ratio]'',
      Print ''Example: blender --background --python add_foundation_blender.py -- model.glb model_with_base.stl 0.15 0.08'']"

text \<open>
  \<open>path_exists\<close> is \<^verbatim>\<open>os.path.exists\<close> and \<open>py_float\<close> is the builtin
  \<^verbatim>\<open>float\<close> on a string (\<open>None\<close> where it raises \<^verbatim>\<open>ValueError\<close>); both belong
  to the environment and are parameters. Reading \<^verbatim>\<open>argv[0]\<close> or \<^verbatim>\<open>argv[1]\<close>
  beyond the end of the list raises \<^verbatim>\<open>IndexError\<close>.
\<close>

definition args_after_separator :: "string list \<Rightarrow> string list" where
  "args_after_separator sys_argv =
     (if ''--'' \<in> set sys_argv then drop (index_of ''--'' sys_argv + 1) sys_argv else sys_argv)"

text \<open>Lines 114--128, on the stripped argument list.\<close>

definition main_with_args ::
  "(string \<Rightarrow> bool) \<Rightarrow> (string \<Rightarrow> pyfloat option) \<Rightarrow> (string \<Rightarrow> scene_obj list) \<Rightarrow> string list
     \<Rightarrow> host_op list \<times> outcome" where
  "main_with_args path_exists py_float import_scene argv =
     (if length argv \<le> 0 then ([], Raised IndexError)
      else if length argv \<le> 1 then ([], Raised IndexError)
      else
        (let input_file = argv ! 0; output_file = argv ! 1 in
         case (if length argv > 2 then py_float (argv ! 2) else Some (round_double 0.1)) of
           None \<Rightarrow> ([], Raised ValueError)
         | Some margin_ratio \<Rightarrow>
            (case (if length argv > 3 then py_float (argv ! 3) else Some (round_double 0.05)) of
               None \<Rightarrow> ([], Raised ValueError)
             | Some thickness_ratio \<Rightarrow>
                if \<not> path_exists input_file then
                  ([Print (''Input file not found: '' @ input_file)], Returned)
                else
                  (let (ops, success) =
                         add_circular_foundation import_scene input_file output_file
                           margin_ratio thickness_ratio (round_double 0.05)
                   in (ops @ [Print (if success then ''Successfully created '' @ output_file
                                     else ''Failed to create foundation'')], Returned)))))"

text \<open>\<open>main\<close>: the guard of line 104 on the raw \<^verbatim>\<open>sys.argv\<close>, then the rest.\<close>

definition main_add_foundation ::
  "(string \<Rightarrow> bool) \<Rightarrow> (string \<Rightarrow> pyfloat option) \<Rightarrow> (string \<Rightarrow> scene_obj list) \<Rightarrow> string list
     \<Rightarrow> host_op list \<times> outcome" where
  "main_add_foundation path_exists py_float import_scene sys_argv =
     (if length sys_argv < 6 then (usage_add_foundation, Returned)
      else main_with_args path_exists py_float import_scene (args_after_separator sys_argv))"

text \<open>Host operations that create the cylinder, and those that write the output file.\<close>

fun is_cylinder_add :: "host_op \<Rightarrow> bool" where
  "is_cylinder_add (CylinderAdd r d loc n) = True"
| "is_cylinder_add op = False"

fun is_file_export :: "host_op \<Rightarrow> bool" where
  "is_file_export (StlExport path) = True"
| "is_file_export (GltfExport path fmt) = True"
| "is_file_export op = False"

section \<open>Processes and files\<close>

text \<open>
  The file system is the set of paths that exist. \<^verbatim>\<open>subprocess.run(cmd, check=True)\<close>
  is a function of the environment: given the command and the files, it either cannot
  start the program (\<^verbatim>\<open>OSError\<close>) or the program exits with a status, and in both
  cases the files may have changed. A non-zero status raises
  \<^verbatim>\<open>CalledProcessError\<close>. \<^verbatim>\<open>os.remove\<close> of an existing file is taken to succeed.
\<close>

datatype proc_result = Exited int | NotStarted

type_synonym files = "string set"

type_synonym subprocess = "string list \<Rightarrow> files \<Rightarrow> proc_result \<times> files"

fun exit_code :: "outcome \<Rightarrow> int" where
  "exit_code Returned = 0"
| "exit_code (Raised e) = 1"
| "exit_code (SysExit n) = n"

text \<open>\<^verbatim>\<open>os.path.join(a, b)\<close> on POSIX paths.\<close>

definition path_join :: "string \<Rightarrow> string \<Rightarrow> string" where
  "path_join a b =
     (if b \<noteq> [] \<and> hd b = CHR ''/'' then b
      else if a = [] \<or> last a = CHR ''/'' then a @ b
      else a @ ''/'' @ b)"

section \<open>The repair stage (glb\_to\_stl.py)\<close>

text \<open>
  The mesh library is a parameter: each operation either returns the new mesh or raises.
  \<open>'m\<close> is the type of meshes and \<open>'k\<close> the type of the face mask that
  \<^verbatim>\<open>unique_faces\<close> returns. An operation that raises is taken to leave the mesh as
  it was. \<open>import_smoothing\<close> is the statement \<^verbatim>\<open>import trimesh.smoothing\<close> and
  \<open>filter_laplacian\<close> the import of that function followed by its call.
\<close>

record ('m, 'k) trimesh =
  load :: "string \<Rightarrow> files \<Rightarrow> py_error + 'm"
  fill_holes :: "'m \<Rightarrow> py_error + 'm"
  unique_faces :: "'m \<Rightarrow> py_error + 'k"
  update_faces :: "'m \<Rightarrow> 'k \<Rightarrow> py_error + 'm"
  remove_unreferenced_vertices :: "'m \<Rightarrow> py_error + 'm"
  import_smoothing :: "py_error option"
  smoothed :: "'m \<Rightarrow> py_error + 'm"
  filter_laplacian :: "'m \<Rightarrow> real \<Rightarrow> nat \<Rightarrow> py_error + 'm"
  export_mesh :: "'m \<Rightarrow> string \<Rightarrow> files \<Rightarrow> py_error + files"

datatype 'm repair_event =
    Say string
  | Warn string py_error
  | RunTool "string list"
  | ExportMesh 'm string
  | RemoveFile string

text \<open>Lines 23--27: hole filling, wrapped in \<^verbatim>\<open>try/except Exception\<close>.\<close>

definition fill_holes_step :: "('m, 'k) trimesh \<Rightarrow> 'm \<Rightarrow> 'm repair_event list \<times> 'm" where
  "fill_holes_step lib mesh =
     (case fill_holes lib mesh of
        Inl e \<Rightarrow> ([Warn ''Warning: Could not fill holes: '' e], mesh)
      | Inr mesh' \<Rightarrow> ([], mesh'))"

text \<open>
  Lines 28--29: \<^verbatim>\<open>mesh.update_faces(mesh.unique_faces())\<close> and
  \<^verbatim>\<open>mesh.remove_unreferenced_vertices()\<close>, outside any \<^verbatim>\<open>try\<close>.
\<close>

definition dedup_step :: "('m, 'k) trimesh \<Rightarrow> 'm \<Rightarrow> py_error + 'm" where
  "dedup_step lib mesh =
     (case unique_faces lib mesh of
        Inl e \<Rightarrow> Inl e
      | Inr unique \<Rightarrow>
         (case update_faces lib mesh unique of
            Inl e \<Rightarrow> Inl e
          | Inr mesh' \<Rightarrow> remove_unreferenced_vertices lib mesh'))"

text \<open>
  Lines 33--43: \<^verbatim>\<open>mesh.smoothed()\<close>; on \<^verbatim>\<open>AttributeError\<close> the fallback
  \<^verbatim>\<open>filter_laplacian(mesh, lamb=0.5, iterations=3)\<close>; every other exception, and
  every exception of the fallback, is a warning.
\<close>

definition laplacian_fallback :: "('m, 'k) trimesh \<Rightarrow> 'm \<Rightarrow> 'm repair_event list \<times> 'm" where
  "laplacian_fallback lib mesh =
     (case filter_laplacian lib mesh 0.5 3 of
        Inl e \<Rightarrow> ([Warn ''Warning: Could not smooth mesh: '' e], mesh)
      | Inr mesh' \<Rightarrow> ([], mesh'))"

definition smoothing_step :: "('m, 'k) trimesh \<Rightarrow> 'm \<Rightarrow> 'm repair_event list \<times> 'm" where
  "smoothing_step lib mesh =
     (case (case import_smoothing lib of Some e \<Rightarrow> Inl e | None \<Rightarrow> smoothed lib mesh) of
        Inr mesh' \<Rightarrow> ([], mesh')
      | Inl e \<Rightarrow>
         if e = AttributeError then laplacian_fallback lib mesh
         else ([Warn ''Warning: Could not smooth mesh: '' e], mesh))"

text \<open>
  The module body. The result is the list of events, the files at the end and how the
  script ended (an uncaught exception ends the process with status 1).
\<close>

definition glb_to_stl ::
  "('m, 'k) trimesh \<Rightarrow> subprocess \<Rightarrow> string list \<Rightarrow> files \<Rightarrow> 'm repair_event list \<times> files \<times> outcome" where
  "glb_to_stl lib run sys_argv fs =
     (if length sys_argv \<noteq> 3 then
        ([Say ''Usage: python glb_to_stl.py input.glb output.stl''], fs, SysExit 1)
      else
        (let input_glb = sys_argv ! 1; output_stl = sys_argv ! 2; temp_stl = ''temp.stl'';
             cmd = [''assimp'', ''export'', input_glb, temp_stl];
             ev0 = [Say (''Converting '' @ input_glb @ '' to STL...''), RunTool cmd]
         in case run cmd fs of
              (NotStarted, fs1) \<Rightarrow> (ev0, fs1, Raised OSError)
            | (Exited rc, fs1) \<Rightarrow>
               if rc \<noteq> 0 then (ev0, fs1, Raised CalledProcessError)
               else
                 (let ev1 = ev0 @ [Say ''Loading and repairing mesh...''] in
                  case load lib temp_stl fs1 of
                    Inl e \<Rightarrow> (ev1, fs1, Raised e)
                  | Inr mesh0 \<Rightarrow>
                     (let (w1, mesh1) = fill_holes_step lib mesh0 in
                      case dedup_step lib mesh1 of
                        Inl e \<Rightarrow> (ev1 @ w1, fs1, Raised e)
                      | Inr mesh2 \<Rightarrow>
                         (let (w2, mesh3) = smoothing_step lib mesh2;
                              ev2 = ev1 @ w1 @ [Say ''Smoothing mesh...''] @ w2 @
                                    [ExportMesh mesh3 output_stl]
                          in case export_mesh lib mesh3 output_stl fs1 of
                               Inl e \<Rightarrow> (ev2, fs1, Raised e)
                             | Inr fs2 \<Rightarrow>
                                (let ev3 = ev2 @
                                       [Say (''Repaired and smoothed STL saved as '' @ output_stl),
                                        RemoveFile temp_stl]
                                 in if temp_stl \<in> fs2 then (ev3, fs2 - {temp_stl}, Returned)
                                    else (ev3, fs2, Raised OSError)))))))"

section \<open>The pipeline driver (process\_with\_foundation.py)\<close>

text \<open>
  The environment of the driver: the Python interpreter, the directory of the script and
  the directory \<^verbatim>\<open>tempfile.gettempdir()\<close>. Messages are recorded without the
  decorative glyphs of the source, and an error message keeps the command and its status
  in place of the rendered exception.
\<close>

record environment =
  sys_executable :: string
  script_dir :: string
  tempdir :: string

datatype sys_event =
    Tell string
  | TellError string "string list" int
  | Run "string list"
  | Remove string

definition usage_process :: "sys_event list" where
  "usage_process =
     [Tell ''Usage: python process_with_foundation.py input.glb output.stl [margin_ratio] [thickness_ratio]'',
      Tell ''Example: python process_with_foundation.py model.glb model_with_foundation.stl 0.15 0.08'']"

text \<open>The cleanup of line 57, and one pass of the loop of lines 75--78.\<close>

definition remove_if_exists :: "string \<Rightarrow> files \<Rightarrow> sys_event list \<times> files" where
  "remove_if_exists temp_file fs =
     (if temp_file \<in> fs then ([Remove temp_file], fs - {temp_file}) else ([], fs))"

definition clean_up_one :: "string \<Rightarrow> sys_event list \<times> files \<Rightarrow> sys_event list \<times> files" where
  "clean_up_one temp_file acc =
     (case acc of (ev, fs) \<Rightarrow>
        if temp_file \<in> fs
        then (ev @ [Remove temp_file, Tell (''Cleaned up: '' @ temp_file)], fs - {temp_file})
        else (ev, fs))"

definition clean_up :: "string list \<Rightarrow> files \<Rightarrow> sys_event list \<times> files" where
  "clean_up temp_files fs = fold clean_up_one temp_files ([], fs)"

text \<open>
  The two temporary paths and the three commands of the driver, under the names of the
  source where it names them.
\<close>

definition temp_smoothed_stl :: "environment \<Rightarrow> string" where
  "temp_smoothed_stl env = path_join (tempdir env) ''smoothed_temp.stl''"

definition temp_glb :: "environment \<Rightarrow> string" where
  "temp_glb env = path_join (tempdir env) ''smoothed_temp.glb''"

definition glb_to_stl_script :: "environment \<Rightarrow> string" where
  "glb_to_stl_script env = path_join (script_dir env) ''glb_to_stl.py''"

definition add_foundation_script :: "environment \<Rightarrow> string" where
  "add_foundation_script env = path_join (script_dir env) ''add_foundation_blender.py''"

definition repair_cmd :: "environment \<Rightarrow> string list \<Rightarrow> string list" where
  "repair_cmd env sys_argv =
     [sys_executable env, glb_to_stl_script env, sys_argv ! 1, temp_smoothed_stl env]"

definition convert_cmd :: "environment \<Rightarrow> string list" where
  "convert_cmd env = [''assimp'', ''export'', temp_smoothed_stl env, temp_glb env]"

definition foundation_cmd :: "environment \<Rightarrow> string list \<Rightarrow> string list" where
  "foundation_cmd env sys_argv =
     [''blender'', ''--background'', ''--python'', add_foundation_script env, ''--'',
      temp_glb env, sys_argv ! 2,
      (if length sys_argv > 3 then sys_argv ! 3 else ''0.1''),
      (if length sys_argv > 4 then sys_argv ! 4 else ''0.05'')]"

text \<open>
  \<open>main\<close> of the driver. The \<^verbatim>\<open>finally\<close> block of the third step runs on every
  way out of its \<^verbatim>\<open>try\<close>: after the success message, after the error message, and
  when the program could not be started.
\<close>

definition main_process_with_foundation ::
  "environment \<Rightarrow> subprocess \<Rightarrow> string list \<Rightarrow> files \<Rightarrow> sys_event list \<times> files \<times> outcome" where
  "main_process_with_foundation env run sys_argv fs =
     (if length sys_argv < 3 then (usage_process, fs, Returned)
      else
        (let input_glb = sys_argv ! 1; output_stl = sys_argv ! 2
         in if input_glb \<notin> fs then
              ([Tell (''Input file not found: '' @ input_glb)], fs, Returned)
            else
              (let cmd1 = repair_cmd env sys_argv;
                   ev1 = [Tell ''Step 1: Smoothing GLB with trimesh...'', Run cmd1]
               in case run cmd1 fs of
                    (NotStarted, fs1) \<Rightarrow> (ev1, fs1, Raised OSError)
                  | (Exited rc1, fs1) \<Rightarrow>
                     if rc1 \<noteq> 0 then
                       (ev1 @ [TellError ''Error in trimesh smoothing: '' cmd1 rc1], fs1, Returned)
                     else
                       (let cmd2 = convert_cmd env;
                            ev2 = ev1 @ [Tell (''Smoothed STL created: '' @ temp_smoothed_stl env),
                                         Tell ''Step 2: Converting smoothed STL to temporary GLB...'',
                                         Run cmd2]
                        in case run cmd2 fs1 of
                             (NotStarted, fs2) \<Rightarrow> (ev2, fs2, Raised OSError)
                           | (Exited rc2, fs2) \<Rightarrow>
                              if rc2 \<noteq> 0 then
                                (let (evc, fs3) = remove_if_exists (temp_smoothed_stl env) fs2
                                 in (ev2 @ [TellError ''Error converting STL to GLB: '' cmd2 rc2] @ evc,
                                     fs3, Returned))
                              else
                                (let cmd3 = foundation_cmd env sys_argv;
                                     ev3 = ev2 @ [Tell (''Temporary GLB created: '' @ temp_glb env),
                                                  Tell ''Step 3: Adding foundation with Blender...'',
                                                  Run cmd3]
                                 in case run cmd3 fs2 of
                                      (r3, fs3) \<Rightarrow>
                                       (let (evc, fs4) =
                                              clean_up [temp_smoothed_stl env, temp_glb env] fs3
                                        in case r3 of
                                          NotStarted \<Rightarrow> (ev3 @ evc, fs4, Raised OSError)
                                        | Exited rc3 \<Rightarrow>
                                           if rc3 \<noteq> 0 then
                                             (ev3 @ [TellError ''Error adding foundation: '' cmd3 rc3] @ evc,
                                              fs4, Returned)
                                           else
                                             (ev3 @ [Tell (''Final STL with foundation created: '' @ output_stl)]
                                                  @ evc @
                                                  [Tell ''Success! Process completed:'',
                                                   Tell (''   Input:  '' @ input_glb),
                                                   Tell (''   Output: '' @ output_stl),
                                                   Tell ''   Applied trimesh smoothing + circular foundation''],
                                              fs4, Returned)))))))"

text \<open>
  Starting the interpreter on \<^verbatim>\<open>glb_to_stl.py\<close> runs the module above with the rest
  of the command as its \<^verbatim>\<open>sys.argv\<close>; every other command is left to \<open>tools\<close>.
\<close>

definition run_with_repair ::
  "('m, 'k) trimesh \<Rightarrow> environment \<Rightarrow> subprocess \<Rightarrow> subprocess" where
  "run_with_repair lib env tools cmd fs =
     (if take 2 cmd = [sys_executable env, glb_to_stl_script env]
      then (case glb_to_stl lib tools (tl cmd) fs of (ev, fs', out) \<Rightarrow> (Exited (exit_code out), fs'))
      else tools cmd fs)"

text \<open>External calls: a subprocess of the driver, an operator of the host.\<close>

fun is_run :: "sys_event \<Rightarrow> bool" where
  "is_run (Run cmd) = True"
| "is_run ev = False"

fun is_remove :: "sys_event \<Rightarrow> bool" where
  "is_remove (Remove path) = True"
| "is_remove ev = False"

fun is_host_call :: "host_op \<Rightarrow> bool" where
  "is_host_call (Print msg) = False"
| "is_host_call (PrintDimensions a b) = False"
| "is_host_call (PrintFoundation a b) = False"
| "is_host_call op = True"

fun is_export_mesh :: "'m repair_event \<Rightarrow> bool" where
  "is_export_mesh (ExportMesh mesh path) = True"
| "is_export_mesh ev = False"

fun is_warn :: "'m repair_event \<Rightarrow> bool" where
  "is_warn (Warn msg e) = True"
| "is_warn ev = False"

section \<open>Example inputs\<close>

text \<open>
  A single mesh object with the identity transform whose box is \<open>(-1,-1,0)\<close> to
  \<open>(1,1,2)\<close>, the box of the scenarios of the specification.
\<close>

definition unit_cube :: scene_obj where
  "unit_cube = \<lparr> obj_name = ''Cube'', obj_type = ''MESH'', matrix_world = (\<lambda>v. v),
      bound_box = [(-1, -1, 0), (-1, -1, 2), (-1, 1, 2), (-1, 1, 0),
                   (1, -1, 0), (1, -1, 2), (1, 1, 2), (1, 1, 0)] \<rparr>"

text \<open>
  A degenerate mesh object whose eight corners coincide, and an object that is not a mesh.
\<close>

definition point_obj :: scene_obj where
  "point_obj = \<lparr> obj_name = ''Point'', obj_type = ''MESH'', matrix_world = (\<lambda>v. v),
      bound_box = [(0, 0, 0), (0, 0, 0), (0, 0, 0), (0, 0, 0),
                   (0, 0, 0), (0, 0, 0), (0, 0, 0), (0, 0, 0)] \<rparr>"

definition camera_obj :: scene_obj where
  "camera_obj = \<lparr> obj_name = ''Camera'', obj_type = ''CAMERA'', matrix_world = (\<lambda>v. v),
      bound_box = [(0, 0, 0), (0, 0, 0), (0, 0, 0), (0, 0, 0),
                   (0, 0, 0), (0, 0, 0), (0, 0, 0), (0, 0, 0)] \<rparr>"

text \<open>
  An environment, external tools that succeed and write their output file, and a mesh
  library over numbered meshes in which every operation succeeds.
\<close>

definition example_env :: environment where
  "example_env = \<lparr> sys_executable = ''python3'', script_dir = ''/app'', tempdir = ''/tmp'' \<rparr>"

definition tools_ok :: subprocess where
  "tools_ok cmd fs =
     (if take 2 cmd = [''assimp'', ''export''] \<and> length cmd = 4 then (Exited 0, insert (cmd ! 3) fs)
      else if take 1 cmd = [''blender''] \<and> length cmd = 9 then (Exited 0, insert (cmd ! 6) fs)
      else (Exited 0, fs))"

definition good_lib :: "(nat, unit) trimesh" where
  "good_lib = \<lparr> load = (\<lambda>path fs. if path \<in> fs then Inr 0 else Inl OSError),
      fill_holes = (\<lambda>mesh. Inr (mesh + 1)),
      unique_faces = (\<lambda>mesh. Inr ()),
      update_faces = (\<lambda>mesh unique. Inr (mesh + 10)),
      remove_unreferenced_vertices = (\<lambda>mesh. Inr (mesh + 100)),
      import_smoothing = None,
      smoothed = (\<lambda>mesh. Inr (mesh + 1000)),
      filter_laplacian = (\<lambda>mesh lamb iterations. Inr (mesh + 2000)),
      export_mesh = (\<lambda>mesh path fs. Inr (insert path fs)) \<rparr>"

text \<open>
  Libraries in which one operation raises, the command lines of the repair stage and of
  the driver used below, and external tools among which the converter cannot be started.
\<close>

definition lib_fill_fails :: "(nat, unit) trimesh" where
  "lib_fill_fails = good_lib \<lparr> fill_holes := (\<lambda>mesh. Inl ValueError) \<rparr>"

definition lib_dedup_fails :: "(nat, unit) trimesh" where
  "lib_dedup_fails = good_lib \<lparr> unique_faces := (\<lambda>mesh. Inl OtherError) \<rparr>"

definition lib_load_fails :: "(nat, unit) trimesh" where
  "lib_load_fails = good_lib \<lparr> load := (\<lambda>path fs. Inl ValueError) \<rparr>"

definition repair_argv :: "string list" where
  "repair_argv = [''glb_to_stl.py'', ''in.glb'', ''out.stl'']"

definition pipeline_argv :: "string list" where
  "pipeline_argv = [''process_with_foundation.py'', ''model.glb'', ''out.stl'']"

definition tools_no_assimp :: subprocess where
  "tools_no_assimp cmd fs =
     (if take 1 cmd = [''assimp''] then (NotStarted, fs) else (Exited 0, insert (last cmd) fs))"

section \<open>Properties of the rounding\<close>

text \<open>
  \<open>pow2\<close> is the power of two, the exponent of a positive number is the floor of its
  binary logarithm, and \<open>round_double\<close> is computed from the binade of its argument:
  if \<open>2^e \<le> a < 2^(e+1)\<close> with \<open>-1022 \<le> e\<close> and \<open>n\<close> is \<open>a / 2^(e-52)\<close>
  rounded to the nearest integer, ties to even, then \<open>a\<close> rounds to
  \<open>n * 2^(e-52)\<close>. This is the rule by which the values of the literals and of the
  operations of the examples are obtained below.
\<close>

lemma pow2_powr: "pow2 e = 2 powr (of_int e)"
proof (cases "0 \<le> e")
  case True
  then have "2 powr (of_int e) = (2::real) powr (real (nat e))" by simp
  also have "\<dots> = 2 ^ nat e" by (simp add: powr_realpow)
  finally show ?thesis using True by (simp add: pow2_def)
next
  case False
  then have "real_of_int e = - real (nat (- e))" by simp
  then have "2 powr (real_of_int e) = (2::real) powr (- real (nat (- e)))" by (rule arg_cong)
  also have "\<dots> = 1 / 2 powr (real (nat (- e)))" by (rule powr_minus_divide)
  also have "\<dots> = 1 / 2 ^ nat (- e)" by (simp only: powr_realpow zero_less_numeral)
  finally show ?thesis using False by (simp only: pow2_def if_False)
qed

lemma pow2_pos: "0 < pow2 e"
  by (simp add: pow2_powr)

lemma pow2_add: "pow2 (i + j) = pow2 i * pow2 j"
  by (simp add: pow2_powr powr_add)

lemma pow2_mono: "i \<le> j \<Longrightarrow> pow2 i \<le> pow2 j"
  by (simp add: pow2_powr)

lemma floor_log2_eq:
  assumes "pow2 e \<le> a" and "a < pow2 (e + 1)"
  shows "\<lfloor>log 2 a\<rfloor> = e"
proof -
  have pos: "0 < a" using assms(1) pow2_pos [of e] by linarith
  have l: "of_int e \<le> log 2 a"
    using assms(1) pos by (simp add: pow2_powr le_log_iff)
  have u: "log 2 a < of_int e + 1"
    using assms(2) pos by (simp add: pow2_powr log_less_iff)
  from l u show ?thesis by linarith
qed

lemma float_exponent_normal:
  assumes "pow2 e \<le> a" and "a < pow2 (e + 1)" and "- 1022 \<le> e"
  shows "float_exponent a = e"
  using floor_log2_eq [OF assms(1,2)] assms(3) by (simp add: float_exponent_def)

lemma round_double_pos:
  assumes "pow2 e \<le> a" and "a < pow2 (e + 1)" and "- 1022 \<le> e"
    and "round_half_even (a / pow2 (e - 52)) = n"
    and "of_int n * pow2 (e - 52) < pow2 1024"
  shows "round_double a = Fin (of_int n * pow2 (e - 52))"
proof -
  have pos: "0 < a" using assms(1) pow2_pos [of e] by linarith
  then have ab: "\<bar>a\<bar> = a" and nz: "a \<noteq> 0" by simp_all
  note ex = float_exponent_normal [OF assms(1,2,3)]
  have "\<not> pow2 1024 \<le> of_int n * pow2 (e - 52)" using assms(5) by simp
  then show ?thesis
    unfolding round_double_def Let_def ab ex assms(4)
    using pos nz by (simp only: if_False if_True)
qed

lemma round_double_neg:
  assumes "pow2 e \<le> a" and "a < pow2 (e + 1)" and "- 1022 \<le> e"
    and "round_half_even (a / pow2 (e - 52)) = n"
    and "of_int n * pow2 (e - 52) < pow2 1024"
  shows "round_double (- a) = Fin (- (of_int n * pow2 (e - 52)))"
proof -
  have pos: "0 < a" using assms(1) pow2_pos [of e] by linarith
  then have ab: "\<bar>- a\<bar> = a" and nz: "- a \<noteq> 0" and np: "\<not> 0 < - a" by simp_all
  note ex = float_exponent_normal [OF assms(1,2,3)]
  have "\<not> pow2 1024 \<le> of_int n * pow2 (e - 52)" using assms(5) by simp
  then show ?thesis
    unfolding round_double_def Let_def ab ex assms(4)
    using nz np by (simp only: if_False if_True)
qed

lemma round_half_even_int: "round_half_even (of_int n) = n"
  by (simp add: round_half_even_def)


lemma round_double_exact:
  assumes "2 ^ 52 \<le> n" and "n < 2 ^ 53" and "- 1022 \<le> e" and "e \<le> 1023"
  shows "round_double (of_int n * pow2 (e - 52)) = Fin (of_int n * pow2 (e - 52))"
    and "round_double (- (of_int n * pow2 (e - 52))) = Fin (- (of_int n * pow2 (e - 52)))"
proof -
  have u: "0 < pow2 (e - 52)" by (rule pow2_pos)
  have c: "pow2 52 = 2 ^ 52" "pow2 53 = 2 ^ 53" by (simp_all add: pow2_def)
  have s: "pow2 e = 2 ^ 52 * pow2 (e - 52)" "pow2 (e + 1) = 2 ^ 53 * pow2 (e - 52)"
    using pow2_add [of 52 "e - 52"] pow2_add [of 53 "e - 52"] unfolding c
    by (simp_all add: add.commute)
  have l: "pow2 e \<le> of_int n * pow2 (e - 52)"
    using assms(1) u unfolding s by (intro mult_right_mono) (simp_all add: of_int_le_numeral_power_cancel_iff)
  have h: "of_int n * pow2 (e - 52) < pow2 (e + 1)"
    using assms(2) u unfolding s by (intro mult_strict_right_mono) simp_all
  have q: "round_half_even (of_int n * pow2 (e - 52) / pow2 (e - 52)) = n"
    using u by (simp add: round_half_even_int)
  have "pow2 (e + 1) \<le> pow2 1024" using assms(4) by (intro pow2_mono) simp
  with h have b: "of_int n * pow2 (e - 52) < pow2 1024" by linarith
  show "round_double (of_int n * pow2 (e - 52)) = Fin (of_int n * pow2 (e - 52))"
    by (rule round_double_pos [OF l h assms(3) q b])
  show "round_double (- (of_int n * pow2 (e - 52))) = Fin (- (of_int n * pow2 (e - 52)))"
    by (rule round_double_neg [OF l h assms(3) q b])
qed


lemma rd_0: "round_double 0 = Fin 0"
  by (simp add: round_double_def)

lemma pow2_less_iff: "pow2 i < pow2 j \<longleftrightarrow> i < j"
  by (simp add: pow2_powr)


lemma binade_exists:
  assumes "0 < a"
  shows "pow2 \<lfloor>log 2 a\<rfloor> \<le> a \<and> a < pow2 (\<lfloor>log 2 a\<rfloor> + 1)"
proof -
  have "of_int \<lfloor>log 2 a\<rfloor> \<le> log 2 a" by simp
  then have "2 powr (of_int \<lfloor>log 2 a\<rfloor>) \<le> a"
    using assms le_log_iff [of 2 a "of_int \<lfloor>log 2 a\<rfloor>"] by linarith
  then have l: "pow2 \<lfloor>log 2 a\<rfloor> \<le> a"
    by (simp only: pow2_powr)
  have "log 2 a < of_int (\<lfloor>log 2 a\<rfloor> + 1)" by simp
  then have "a < 2 powr (of_int (\<lfloor>log 2 a\<rfloor> + 1))"
    using assms log_less_iff [of 2 a "of_int (\<lfloor>log 2 a\<rfloor> + 1)"] by linarith
  then have "a < pow2 (\<lfloor>log 2 a\<rfloor> + 1)"
    by (simp only: pow2_powr)
  with l show ?thesis by simp
qed

lemma round_half_even_cases:
  "round_half_even q = \<lfloor>q\<rfloor> \<or> (round_half_even q = \<lfloor>q\<rfloor> + 1 \<and> 1 / 2 \<le> q - of_int \<lfloor>q\<rfloor>)"
  by (auto simp: round_half_even_def Let_def)

lemma round_half_even_less:
  assumes "q < of_int m"
  shows "round_half_even q \<le> m"
proof -
  from assms have "\<lfloor>q\<rfloor> < m" by (simp add: floor_less_iff)
  with round_half_even_cases [of q] show ?thesis by auto
qed



lemma round_half_even_le:
  assumes "q < of_int N + 1 / 2"
  shows "round_half_even q \<le> N"
proof -
  have fl: "of_int \<lfloor>q\<rfloor> \<le> q" by simp
  from round_half_even_cases [of q] show ?thesis
  proof
    assume r: "round_half_even q = \<lfloor>q\<rfloor>"
    from fl assms have "of_int \<lfloor>q\<rfloor> < (of_int N :: real) + 1 / 2" by linarith
    then have "of_int \<lfloor>q\<rfloor> < (of_int (N + 1) :: real)" by simp
    then have "\<lfloor>q\<rfloor> < N + 1" by (simp only: of_int_less_iff)
    with r show ?thesis by simp
  next
    assume "round_half_even q = \<lfloor>q\<rfloor> + 1 \<and> 1 / 2 \<le> q - of_int \<lfloor>q\<rfloor>"
    then have r: "round_half_even q = \<lfloor>q\<rfloor> + 1" and d: "1 / 2 \<le> q - of_int \<lfloor>q\<rfloor>" by simp_all
    from d assms have "of_int \<lfloor>q\<rfloor> < (of_int N :: real)" by linarith
    then have "\<lfloor>q\<rfloor> < N" by (simp only: of_int_less_iff)
    with r show ?thesis by simp
  qed
qed

lemma float_exponent_bounds:
  assumes "0 < a" and "a < pow2 1024"
  shows "a < pow2 (float_exponent a + 1)" and "float_exponent a \<le> 1023" and "- 1022 \<le> float_exponent a"
proof -
  from binade_exists [OF assms(1)] have l: "pow2 \<lfloor>log 2 a\<rfloor> \<le> a" and h: "a < pow2 (\<lfloor>log 2 a\<rfloor> + 1)"
    by simp_all
  have "\<lfloor>log 2 a\<rfloor> + 1 \<le> float_exponent a + 1" by (simp add: float_exponent_def)
  then have "pow2 (\<lfloor>log 2 a\<rfloor> + 1) \<le> pow2 (float_exponent a + 1)" by (rule pow2_mono)
  with h show "a < pow2 (float_exponent a + 1)" by linarith
  from l assms(2) have "pow2 \<lfloor>log 2 a\<rfloor> < pow2 1024" by linarith
  then have "\<lfloor>log 2 a\<rfloor> < 1024" by (simp only: pow2_less_iff)
  then show "float_exponent a \<le> 1023" by (simp add: float_exponent_def)
  show "- 1022 \<le> float_exponent a" by (simp add: float_exponent_def)
qed

lemma pow2_split: "pow2 (e + 1) = 2 ^ 53 * pow2 (e - 52)"
  using pow2_add [of 53 "e - 52"] by (simp add: pow2_def add.commute)

text \<open>
  The greatest finite binary64 number is \<open>(2^53 - 1) * 2^971\<close>; a number that
  rounding leaves unchanged is at most that in magnitude.
\<close>

lemma representable_bound:
  assumes "round_double m = Fin m"
  shows "\<bar>m\<bar> \<le> (2 ^ 53 - 1) * pow2 971"
proof (cases "m = 0")
  case True
  then show ?thesis using pow2_pos [of 971] by simp
next
  case False
  define a where "a = \<bar>m\<bar>"
  define e where "e = float_exponent a"
  define u where "u = pow2 (e - 52)"
  define n where "n = round_half_even (a / u)"
  have apos: "0 < a" using False by (simp add: a_def)
  have u: "0 < u" by (simp add: u_def pow2_pos)
  have rd: "round_double m = (if pow2 1024 \<le> of_int n * u then (if 0 < m then PInf else NInf)
              else Fin (if 0 < m then of_int n * u else - (of_int n * u)))"
    using False by (simp add: round_double_def Let_def a_def e_def u_def n_def)
  from assms rd have fin: "\<not> pow2 1024 \<le> of_int n * u"
    by (cases "pow2 1024 \<le> of_int n * u") (simp_all split: if_splits)
  with assms rd have "m = (if 0 < m then of_int n * u else - (of_int n * u))" by simp
  then have an: "a = of_int n * u" using False by (cases "0 < m") (simp_all add: a_def)
  from fin an have a1024: "a < pow2 1024" by simp
  from float_exponent_bounds [OF apos a1024]
  have ah: "a < pow2 (e + 1)" and e1023: "e \<le> 1023" by (simp_all add: e_def)
  from ah have "of_int n * u < 2 ^ 53 * u" unfolding an pow2_split u_def .
  with u have "(of_int n :: real) < 2 ^ 53" by simp
  then have "(of_int n :: real) < of_int (2 ^ 53)" by simp
  then have "n < 2 ^ 53" by (simp only: of_int_less_iff)
  then have "n \<le> 2 ^ 53 - 1" by simp
  then have "(of_int n :: real) \<le> of_int (2 ^ 53 - 1)" by (simp only: of_int_le_iff)
  then have n53: "(of_int n :: real) \<le> 2 ^ 53 - 1" by simp
  have "u \<le> pow2 971" unfolding u_def using e1023 by (intro pow2_mono) simp
  moreover have "of_int n * u \<le> (2 ^ 53 - 1) * u" using n53 u by (intro mult_right_mono) simp_all
  moreover have "(2 ^ 53 - 1) * u \<le> (2 ^ 53 - 1) * pow2 971"
    using \<open>u \<le> pow2 971\<close> by (intro mult_left_mono) simp_all
  ultimately show ?thesis using an by (simp add: a_def)
qed

text \<open>Adding one to a finite binary64 number does not overflow.\<close>

lemma round_double_finite:
  assumes "\<bar>v\<bar> \<le> (2 ^ 53 - 1) * pow2 971 + 1"
  shows "\<exists>s. round_double v = Fin s"
proof (cases "v = 0")
  case True
  then show ?thesis by (simp add: rd_0)
next
  case False
  define a where "a = \<bar>v\<bar>"
  define e where "e = float_exponent a"
  define u where "u = pow2 (e - 52)"
  define n where "n = round_half_even (a / u)"
  have apos: "0 < a" using False by (simp add: a_def)
  have u: "0 < u" by (simp add: u_def pow2_pos)
  have "pow2 1 < pow2 971" by (simp add: pow2_less_iff)
  moreover have "pow2 1 = 2" by (simp add: pow2_def)
  ultimately have p971: "2 < pow2 971" by simp
  have p1024: "pow2 1024 = 2 ^ 53 * pow2 971" using pow2_split [of 1023] by simp
  have aM: "a \<le> (2 ^ 53 - 1) * pow2 971 + 1" using assms by (simp add: a_def)
  have "(2 ^ 53 - 1) * pow2 971 + 1 < 2 ^ 53 * pow2 971" using p971 by (simp add: algebra_simps)
  with aM have a1024: "a < pow2 1024" unfolding p1024 by linarith
  from float_exponent_bounds [OF apos a1024]
  have ah: "a < pow2 (e + 1)" and e1023: "e \<le> 1023" by (simp_all add: e_def)
  have fin: "of_int n * u < pow2 1024"
  proof (cases "e = 1023")
    case True
    then have u971: "u = pow2 971" by (simp add: u_def)
    have "a / u \<le> ((2 ^ 53 - 1) * pow2 971 + 1) / pow2 971"
      unfolding u971 using aM pow2_pos [of 971] by (simp add: divide_right_mono)
    also have "\<dots> = (2 ^ 53 - 1) + 1 / pow2 971"
      using pow2_pos [of 971] by (simp add: add_divide_distrib)
    also have "\<dots> < (2 ^ 53 - 1) + 1 / 2"
      using p971 by (simp add: field_simps)
    finally have "a / u < of_int (2 ^ 53 - 1) + 1 / 2" by simp
    then have "n \<le> 2 ^ 53 - 1" unfolding n_def by (rule round_half_even_le)
    then have "(of_int n :: real) \<le> of_int (2 ^ 53 - 1)" by (simp only: of_int_le_iff)
    then have "(of_int n :: real) \<le> 2 ^ 53 - 1" by simp
    then have "of_int n * u \<le> (2 ^ 53 - 1) * u" using u by (intro mult_right_mono) simp_all
    also have "\<dots> < 2 ^ 53 * u" using u by simp
    finally show ?thesis unfolding p1024 u971 .
  next
    case False
    with e1023 have e1022: "e + 1 \<le> 1023" by simp
    from ah have "a < 2 ^ 53 * u" unfolding pow2_split u_def .
    then have "a / u < 2 ^ 53" using u by (simp add: pos_divide_less_eq)
    then have "a / u < of_int (2 ^ 53)" by simp
    then have "n \<le> 2 ^ 53" unfolding n_def by (rule round_half_even_less)
    then have "(of_int n :: real) \<le> of_int (2 ^ 53)" by (simp only: of_int_le_iff)
    then have "(of_int n :: real) \<le> 2 ^ 53" by simp
    then have "of_int n * u \<le> 2 ^ 53 * u" using u by (intro mult_right_mono) simp_all
    also have "\<dots> = pow2 (e + 1)" unfolding pow2_split u_def ..
    also have "\<dots> \<le> pow2 1023" using e1022 by (rule pow2_mono)
    also have "\<dots> < pow2 1024" by (simp add: pow2_less_iff)
    finally show ?thesis .
  qed
  then have "\<not> pow2 1024 \<le> of_int n * u" by simp
  then show ?thesis
    using False by (simp add: round_double_def Let_def a_def e_def u_def n_def)
qed

lemma add_one_finite:
  assumes "round_double m = Fin m"
  shows "\<exists>s. fadd (Fin 1) (Fin m) = Fin s"
proof -
  have "\<bar>1 + m\<bar> \<le> \<bar>m\<bar> + 1" by simp
  with representable_bound [OF assms] have "\<bar>1 + m\<bar> \<le> (2 ^ 53 - 1) * pow2 971 + 1" by linarith
  from round_double_finite [OF this] show ?thesis by simp
qed

text \<open>A result of magnitude \<open>2^1024\<close> or more overflows to an infinity.\<close>

lemma round_double_overflow:
  assumes "pow2 1024 \<le> x"
  shows "round_double x = PInf"
proof -
  have xpos: "0 < x" using assms pow2_pos [of 1024] by linarith
  define e where "e = float_exponent \<bar>x\<bar>"
  define u where "u = pow2 (e - 52)"
  define n where "n = round_half_even (\<bar>x\<bar> / u)"
  have u: "0 < u" by (simp add: u_def pow2_pos)
  have ax: "\<bar>x\<bar> = x" using xpos by simp
  from binade_exists [OF xpos] have l: "pow2 \<lfloor>log 2 x\<rfloor> \<le> x" and h: "x < pow2 (\<lfloor>log 2 x\<rfloor> + 1)"
    by simp_all
  from assms h have "pow2 1024 < pow2 (\<lfloor>log 2 x\<rfloor> + 1)" by linarith
  then have fl: "1024 \<le> \<lfloor>log 2 x\<rfloor>" by (simp add: pow2_less_iff)
  then have e: "e = \<lfloor>log 2 x\<rfloor>" by (simp add: e_def ax float_exponent_def)
  have s: "pow2 e = 2 ^ 52 * u" using pow2_add [of 52 "e - 52"] by (simp add: u_def pow2_def)
  from l have "2 ^ 52 * u \<le> x" unfolding e [symmetric] s .
  then have "2 ^ 52 \<le> x / u" using u by (simp add: pos_le_divide_eq)
  then have "of_int (2 ^ 52) \<le> x / u" by simp
  then have "2 ^ 52 \<le> \<lfloor>x / u\<rfloor>" by (simp only: le_floor_iff)
  moreover have "\<lfloor>x / u\<rfloor> \<le> n" using round_half_even_cases [of "x / u"] by (auto simp: n_def ax)
  ultimately have "2 ^ 52 \<le> n" by (rule order_trans)
  then have "(of_int (2 ^ 52) :: real) \<le> of_int n" by (simp only: of_int_le_iff)
  then have "(2 ^ 52 :: real) \<le> of_int n" by simp
  then have "2 ^ 52 * u \<le> of_int n * u" using u by (intro mult_right_mono) simp_all
  then have "pow2 e \<le> of_int n * u" unfolding s .
  moreover have "pow2 1024 \<le> pow2 e" using fl e by (intro pow2_mono) simp
  ultimately have "pow2 1024 \<le> of_int n * u" by linarith
  then show ?thesis
    using xpos by (simp add: round_double_def Let_def e_def u_def n_def)
qed



text \<open>
  The binary64 values of the decimal literals of the source and of the specification,
  and of the operations that the examples below perform on them.
\<close>

lemma rd_1_10: "round_double (1 / 10) = Fin (3602879701896397 / 36028797018963968)"
  using round_double_pos [of "- 4" "1 / 10" 7205759403792794]
  by (simp add: pow2_def round_half_even_def)

lemma rd_1_20: "round_double (1 / 20) = Fin (3602879701896397 / 72057594037927936)"
  using round_double_pos [of "- 5" "1 / 20" 7205759403792794]
  by (simp add: pow2_def round_half_even_def)

lemma rd_1_100: "round_double (1 / 100) = Fin (5764607523034235 / 576460752303423488)"
  using round_double_pos [of "- 7" "1 / 100" 5764607523034235]
  by (simp add: pow2_def round_half_even_def)

lemma rd_11_10: "round_double (11 / 10) = Fin (2476979795053773 / 2251799813685248)"
  using round_double_pos [of 0 "11 / 10" 4953959590107546]
  by (simp add: pow2_def round_half_even_def)

lemma rd_m1_20: "round_double (- (1 / 20)) = Fin (- (3602879701896397 / 72057594037927936))"
  using round_double_neg [of "- 5" "1 / 20" 7205759403792794]
  by (simp add: pow2_def round_half_even_def)

lemma rd_1_5: "round_double (1 / 5) = Fin (3602879701896397 / 18014398509481984)"
  using round_double_pos [of "- 3" "1 / 5" 7205759403792794]
  by (simp add: pow2_def round_half_even_def)

lemma rd_11_5: "round_double (11 / 5) = Fin (2476979795053773 / 1125899906842624)"
  using round_double_pos [of 1 "11 / 5" 4953959590107546]
  by (simp add: pow2_def round_half_even_def)

lemma rd_m1_10: "round_double (- (1 / 10)) = Fin (- (3602879701896397 / 36028797018963968))"
  using round_double_neg [of "- 4" "1 / 10" 7205759403792794]
  by (simp add: pow2_def round_half_even_def)

lemma rd_63_5: "round_double (63 / 5) = Fin (7093169413108531 / 562949953421312)"
  using round_double_pos [of 3 "63 / 5" 7093169413108531]
  by (simp add: pow2_def round_half_even_def)

lemma rd_9_5: "round_double (9 / 5) = Fin (8106479329266893 / 4503599627370496)"
  using round_double_pos [of 0 "9 / 5" 8106479329266893]
  by (simp add: pow2_def round_half_even_def)

lemma rd_3_10: "round_double (3 / 10) = Fin (5404319552844595 / 18014398509481984)"
  using round_double_pos [of "- 2" "3 / 10" 5404319552844595]
  by (simp add: pow2_def round_half_even_def)

lemma rd_m1_40: "round_double (- (1 / 40)) = Fin (- (3602879701896397 / 144115188075855872))"
  using round_double_neg [of "- 6" "1 / 40" 7205759403792794]
  by (simp add: pow2_def round_half_even_def)

lemma rd_2: "round_double (2) = Fin (2)"
  using round_double_pos [of 1 "2" 4503599627370496]
  by (simp add: pow2_def round_half_even_def)

lemma rd_1: "round_double (1) = Fin (1)"
  using round_double_pos [of 0 "1" 4503599627370496]
  by (simp add: pow2_def round_half_even_def)

lemma rd_39631676720860365_36028797018963968: "round_double (39631676720860365 / 36028797018963968) = Fin (2476979795053773 / 2251799813685248)"
  using round_double_pos [of 0 "39631676720860365 / 36028797018963968" 4953959590107546]
  by (simp add: pow2_def round_half_even_def)

lemma rd_2476979795053773_2251799813685248: "round_double (2476979795053773 / 2251799813685248) = Fin (2476979795053773 / 2251799813685248)"
  using round_double_pos [of 0 "2476979795053773 / 2251799813685248" 4953959590107546]
  by (simp add: pow2_def round_half_even_def)

lemma rd_3602879701896397_36028797018963968: "round_double (3602879701896397 / 36028797018963968) = Fin (3602879701896397 / 36028797018963968)"
  using round_double_pos [of "- 4" "3602879701896397 / 36028797018963968" 7205759403792794]
  by (simp add: pow2_def round_half_even_def)

lemma rd_3602879701896397_72057594037927936: "round_double (3602879701896397 / 72057594037927936) = Fin (3602879701896397 / 72057594037927936)"
  using round_double_pos [of "- 5" "3602879701896397 / 72057594037927936" 7205759403792794]
  by (simp add: pow2_def round_half_even_def)

lemma rd_m3602879701896397_72057594037927936: "round_double (- (3602879701896397 / 72057594037927936)) = Fin (- (3602879701896397 / 72057594037927936))"
  using round_double_neg [of "- 5" "3602879701896397 / 72057594037927936" 7205759403792794]
  by (simp add: pow2_def round_half_even_def)

lemma rd_5764607523034235_288230376151711744: "round_double (5764607523034235 / 288230376151711744) = Fin (5764607523034235 / 288230376151711744)"
  using round_double_pos [of "- 6" "5764607523034235 / 288230376151711744" 5764607523034235]
  by (simp add: pow2_def round_half_even_def)

lemma rd_3602879701896397_144115188075855872: "round_double (3602879701896397 / 144115188075855872) = Fin (3602879701896397 / 144115188075855872)"
  using round_double_pos [of "- 6" "3602879701896397 / 144115188075855872" 7205759403792794]
  by (simp add: pow2_def round_half_even_def)

lemma rd_m3602879701896397_144115188075855872: "round_double (- (3602879701896397 / 144115188075855872)) = Fin (- (3602879701896397 / 144115188075855872))"
  using round_double_neg [of "- 6" "3602879701896397 / 144115188075855872" 7205759403792794]
  by (simp add: pow2_def round_half_even_def)

lemma rd_4: "round_double (4) = Fin (4)"
  using round_double_pos [of 2 "4" 4503599627370496]
  by (simp add: pow2_def round_half_even_def)

lemma rd_2476979795053773_1125899906842624: "round_double (2476979795053773 / 1125899906842624) = Fin (2476979795053773 / 1125899906842624)"
  using round_double_pos [of 1 "2476979795053773 / 1125899906842624" 4953959590107546]
  by (simp add: pow2_def round_half_even_def)

lemma rd_3602879701896397_18014398509481984: "round_double (3602879701896397 / 18014398509481984) = Fin (3602879701896397 / 18014398509481984)"
  using round_double_pos [of "- 3" "3602879701896397 / 18014398509481984" 7205759403792794]
  by (simp add: pow2_def round_half_even_def)

lemma rd_m3602879701896397_36028797018963968: "round_double (- (3602879701896397 / 36028797018963968)) = Fin (- (3602879701896397 / 36028797018963968))"
  using round_double_neg [of "- 4" "3602879701896397 / 36028797018963968" 7205759403792794]
  by (simp add: pow2_def round_half_even_def)

lemma rd_1_2: "round_double (1 / 2) = Fin (1 / 2)"
  using round_double_pos [of "- 1" "1 / 2" 4503599627370496]
  by (simp add: pow2_def round_half_even_def)

lemma rd_1_4: "round_double (1 / 4) = Fin (1 / 4)"
  using round_double_pos [of "- 2" "1 / 4" 4503599627370496]
  by (simp add: pow2_def round_half_even_def)

lemma rd_2476979795053773_9007199254740992: "round_double (2476979795053773 / 9007199254740992) = Fin (2476979795053773 / 9007199254740992)"
  using round_double_pos [of "- 2" "2476979795053773 / 9007199254740992" 4953959590107546]
  by (simp add: pow2_def round_half_even_def)

lemma rd_3: "round_double (3) = Fin (3)"
  using round_double_pos [of 1 "3" 6755399441055744]
  by (simp add: pow2_def round_half_even_def)

lemma rd_3_2: "round_double (3 / 2) = Fin (3 / 2)"
  using round_double_pos [of 0 "3 / 2" 6755399441055744]
  by (simp add: pow2_def round_half_even_def)

lemma rd_21617278211378381_18014398509481984: "round_double (21617278211378381 / 18014398509481984) = Fin (5404319552844595 / 4503599627370496)"
  using round_double_pos [of 0 "21617278211378381 / 18014398509481984" 5404319552844595]
  by (simp add: pow2_def round_half_even_def)

lemma rd_16212958658533785_9007199254740992: "round_double (16212958658533785 / 9007199254740992) = Fin (2026619832316723 / 1125899906842624)"
  using round_double_pos [of 0 "16212958658533785 / 9007199254740992" 8106479329266892]
  by (simp add: pow2_def round_half_even_def)

lemma rd_10808639105689191_36028797018963968: "round_double (10808639105689191 / 36028797018963968) = Fin (1351079888211149 / 4503599627370496)"
  using round_double_pos [of "- 2" "10808639105689191 / 36028797018963968" 5404319552844596]
  by (simp add: pow2_def round_half_even_def)

lemma rd_1351079888211149_9007199254740992: "round_double (1351079888211149 / 9007199254740992) = Fin (1351079888211149 / 9007199254740992)"
  using round_double_pos [of "- 3" "1351079888211149 / 9007199254740992" 5404319552844596]
  by (simp add: pow2_def round_half_even_def)

lemma rd_m1351079888211149_9007199254740992: "round_double (- (1351079888211149 / 9007199254740992)) = Fin (- (1351079888211149 / 9007199254740992))"
  using round_double_neg [of "- 3" "1351079888211149 / 9007199254740992" 5404319552844596]
  by (simp add: pow2_def round_half_even_def)

lemma rd_21: "round_double (21) = Fin (21)"
  using round_double_pos [of 4 "21" 5910974510923776]
  by (simp add: pow2_def round_half_even_def)

lemma rd_7: "round_double (7) = Fin (7)"
  using round_double_pos [of 2 "7" 7881299347898368]
  by (simp add: pow2_def round_half_even_def)

lemma rd_21_2: "round_double (21 / 2) = Fin (21 / 2)"
  using round_double_pos [of 3 "21 / 2" 5910974510923776]
  by (simp add: pow2_def round_half_even_def)

lemma rd_113490710609736495_9007199254740992: "round_double (113490710609736495 / 9007199254740992) = Fin (7093169413108531 / 562949953421312)"
  using round_double_pos [of 3 "113490710609736495 / 9007199254740992" 7093169413108531]
  by (simp add: pow2_def round_half_even_def)

lemma rd_75660473739824337_36028797018963968: "round_double (75660473739824337 / 36028797018963968) = Fin (4728779608739021 / 2251799813685248)"
  using round_double_pos [of 1 "75660473739824337 / 36028797018963968" 4728779608739021]
  by (simp add: pow2_def round_half_even_def)

lemma rd_7_2: "round_double (7 / 2) = Fin (7 / 2)"
  using round_double_pos [of 1 "7 / 2" 7881299347898368]
  by (simp add: pow2_def round_half_even_def)

lemma rd_4728779608739021_4503599627370496: "round_double (4728779608739021 / 4503599627370496) = Fin (4728779608739021 / 4503599627370496)"
  using round_double_pos [of 0 "4728779608739021 / 4503599627370496" 4728779608739021]
  by (simp add: pow2_def round_half_even_def)

lemma rd_m4728779608739021_4503599627370496: "round_double (- (4728779608739021 / 4503599627370496)) = Fin (- (4728779608739021 / 4503599627370496))"
  using round_double_neg [of 0 "4728779608739021 / 4503599627370496" 4728779608739021]
  by (simp add: pow2_def round_half_even_def)

lemma rd_14186338826217061_1125899906842624: "round_double (14186338826217061 / 1125899906842624) = Fin (3546584706554265 / 281474976710656)"
  using round_double_pos [of 3 "14186338826217061 / 1125899906842624" 7093169413108530]
  by (simp add: pow2_def round_half_even_def)

lemma rd_1_50: "round_double (1 / 50) = Fin (5764607523034235 / 288230376151711744)"
  using round_double_pos [of "- 6" "1 / 50" 5764607523034235]
  by (simp add: pow2_def round_half_even_def)

lemmas rd_evals = rd_0 rd_1_50 rd_1_10 rd_1_20 rd_1_100 rd_11_10 rd_m1_20 rd_1_5 rd_11_5 rd_m1_10 rd_63_5 rd_9_5 rd_3_10 rd_m1_40 rd_2 rd_1 rd_39631676720860365_36028797018963968 rd_2476979795053773_2251799813685248 rd_3602879701896397_36028797018963968 rd_3602879701896397_72057594037927936 rd_m3602879701896397_72057594037927936 rd_5764607523034235_288230376151711744 rd_3602879701896397_144115188075855872 rd_m3602879701896397_144115188075855872 rd_4 rd_2476979795053773_1125899906842624 rd_3602879701896397_18014398509481984 rd_m3602879701896397_36028797018963968 rd_1_2 rd_1_4 rd_2476979795053773_9007199254740992 rd_3 rd_3_2 rd_21617278211378381_18014398509481984 rd_16212958658533785_9007199254740992 rd_10808639105689191_36028797018963968 rd_1351079888211149_9007199254740992 rd_m1351079888211149_9007199254740992 rd_21 rd_7 rd_21_2 rd_113490710609736495_9007199254740992 rd_75660473739824337_36028797018963968 rd_7_2 rd_4728779608739021_4503599627370496 rd_m4728779608739021_4503599627370496 rd_14186338826217061_1125899906842624

section \<open>Properties of the sizing\<close>

lemma py_max_Fin: "py_max (Fin a) (Fin b) = Fin (max a b)"
  by (simp add: py_max_def max_def)

lemma py_min_Fin: "py_min (Fin a) (Fin b) = Fin (min a b)"
  by (simp add: py_min_def min_def)














lemma sizing_unit_box:
  "foundation_sizing [Fin (-1), Fin (-1), Fin 0] [Fin 1, Fin 1, Fin 2]
     (round_double 0.1) (round_double 0.05) (round_double 0.05) =
   \<lparr> x_size = Fin 2, y_size = Fin 2, z_min = Fin 0, max_dimension = Fin 2,
     foundation_radius = round_double 1.1, foundation_thickness = round_double 0.1,
     center_x = Fin 0, center_y = Fin 0, foundation_z = round_double (- 0.05) \<rparr>"
  by (simp add: foundation_sizing_def fsub_def py_max_def Let_def rd_evals)


text \<open>
  The sizing rounds the way the interpreter does. For the box \<open>(0,0,0)\<close>,
  \<open>(3,1,1)\<close> and the ratios 0.2, 0.1 with floor 0.05, Python prints the radius
  \<^verbatim>\<open>1.7999999999999998\<close> and the thickness \<^verbatim>\<open>0.30000000000000004\<close>: neither is
  the float nearest to 1.8 or to 0.3. A product that reaches \<open>2^1024\<close> is
  \<^verbatim>\<open>inf\<close>, and so is the thickness then.
\<close>

lemma sizing_rounds:
  "(let p = foundation_sizing [Fin 0, Fin 0, Fin 0] [Fin 3, Fin 1, Fin 1]
              (round_double 0.2) (round_double 0.1) (round_double 0.05)
    in foundation_radius p = Fin (2026619832316723 / 1125899906842624) \<and>
       round_double 1.8 = Fin (8106479329266893 / 4503599627370496) \<and>
       foundation_radius p \<noteq> round_double 1.8 \<and>
       foundation_thickness p = Fin (1351079888211149 / 4503599627370496) \<and>
       round_double 0.3 = Fin (5404319552844595 / 18014398509481984) \<and>
       foundation_thickness p \<noteq> round_double 0.3)"
  by (simp add: foundation_sizing_def fsub_def py_max_def Let_def rd_evals)

lemma sizing_overflows:
  "(let p = foundation_sizing [Fin 0, Fin 0, Fin 0] [Fin 3, Fin 1, Fin 1]
              (round_double 0.2) (Fin (pow2 1023)) (round_double 0.05)
    in foundation_thickness p = PInf \<and> foundation_z p = NInf)"
proof -
  have "pow2 1024 = 2 * pow2 1023" using pow2_add [of 1 1023] by (simp add: pow2_def)
  then have "pow2 1024 \<le> 3 * pow2 1023" using pow2_pos [of 1023] by linarith
  then have o: "round_double (3 * pow2 1023) = PInf" by (rule round_double_overflow)
  show ?thesis
    by (simp add: foundation_sizing_def fsub_def py_max_def Let_def rd_evals o)
qed




section \<open>Properties of the bounding-box accumulator\<close>

lemma update_corner_triple:
  "update_corner ([a0, a1, a2], [b0, b1, b2]) (x, y, z) =
     ([py_min a0 (Fin x), py_min a1 (Fin y), py_min a2 (Fin z)],
      [py_max b0 (Fin x), py_max b1 (Fin y), py_max b2 (Fin z)])"
  by (simp add: update_corner_def update_axis_def upt_rec)

lemma Min_insert_min:
  "finite S \<Longrightarrow> Min (insert (min a b) S) = Min (insert a (insert b (S :: real set)))"
  by (cases "S = {}") (simp_all add: min.assoc)

lemma Max_insert_max:
  "finite S \<Longrightarrow> Max (insert (max a b) S) = Max (insert a (insert b (S :: real set)))"
  by (cases "S = {}") (simp_all add: max.assoc)

lemma fold_min_Min:
  "fold (\<lambda>c m. min m (f c)) cs a = Min (insert (a :: real) (f ` set cs))"
  by (induction cs arbitrary: a) (simp_all add: Min_insert_min)

lemma fold_max_Max:
  "fold (\<lambda>c m. max m (f c)) cs a = Max (insert (a :: real) (f ` set cs))"
  by (induction cs arbitrary: a) (simp_all add: Max_insert_max)

lemma fold_corners_Fin:
  "fold (\<lambda>corner a. update_corner a corner) cs ([Fin a0, Fin a1, Fin a2], [Fin b0, Fin b1, Fin b2]) =
     ([Fin (fold (\<lambda>c m. min m (vec_nth c 0)) cs a0),
       Fin (fold (\<lambda>c m. min m (vec_nth c 1)) cs a1),
       Fin (fold (\<lambda>c m. min m (vec_nth c 2)) cs a2)],
      [Fin (fold (\<lambda>c m. max m (vec_nth c 0)) cs b0),
       Fin (fold (\<lambda>c m. max m (vec_nth c 1)) cs b1),
       Fin (fold (\<lambda>c m. max m (vec_nth c 2)) cs b2)])"
proof (induction cs arbitrary: a0 a1 a2 b0 b1 b2)
  case Nil
  show ?case by simp
next
  case (Cons c cs)
  obtain x y z where c: "c = (x, y, z)" by (cases c) auto
  show ?case
    by (simp add: c update_corner_triple py_min_Fin py_max_Fin Cons.IH)
qed

lemma update_corner_init:
  "update_corner (replicate 3 PInf, replicate 3 NInf) (x, y, z) =
     ([Fin x, Fin y, Fin z], [Fin x, Fin y, Fin z])"
  by (simp add: numeral_3_eq_3 update_corner_triple py_min_def py_max_def)

lemma fold_objs_concat:
  "fold (\<lambda>obj a. update_obj a obj) mesh_objects acc =
     fold (\<lambda>corner a. update_corner a corner) (concat (map bbox_corners mesh_objects)) acc"
  by (induction mesh_objects arbitrary: acc) (simp_all add: update_obj_def)

lemma bounding_box_concat:
  "bounding_box mesh_objects =
     fold (\<lambda>corner a. update_corner a corner) (concat (map bbox_corners mesh_objects))
       (replicate 3 PInf, replicate 3 NInf)"
  by (simp add: bounding_box_def fold_objs_concat)

lemma fold_corners_Min_Max:
  assumes "cs \<noteq> []"
  shows "fold (\<lambda>corner a. update_corner a corner) cs (replicate 3 PInf, replicate 3 NInf) =
     (map (\<lambda>i. Fin (Min ((\<lambda>c. vec_nth c i) ` set cs))) [0, 1, 2],
      map (\<lambda>i. Fin (Max ((\<lambda>c. vec_nth c i) ` set cs))) [0, 1, 2])"
proof -
  from assms obtain c cs' where cs: "cs = c # cs'" by (cases cs) auto
  obtain x y z where c: "c = (x, y, z)" by (cases c) auto
  have v: "vec_nth c 0 = x" "vec_nth c 1 = y" "vec_nth c 2 = z" by (simp_all add: c)
  show ?thesis
    unfolding cs
    apply (simp only: fold_simps c update_corner_init fold_corners_Fin fold_min_Min fold_max_Max)
    apply (simp add: c)
    done
qed


lemma corners_nonempty:
  assumes "mesh_objects \<noteq> []" and "\<forall>obj\<in>set mesh_objects. length (bound_box obj) = 8"
  shows "concat (map bbox_corners mesh_objects) \<noteq> []"
proof -
  from assms(1) obtain obj where obj: "obj \<in> set mesh_objects" by (cases mesh_objects) auto
  with assms(2) have "length (bbox_corners obj) = 8" by (simp add: bbox_corners_def)
  then have "bbox_corners obj \<noteq> []" by auto
  with obj show ?thesis by auto
qed

lemma bounding_box_Min_Max:
  assumes "concat (map bbox_corners mesh_objects) \<noteq> []"
  shows "bounding_box mesh_objects =
     (map Fin (map (\<lambda>i. Min ((\<lambda>c. vec_nth c i) ` (\<Union>obj\<in>set mesh_objects. set (bbox_corners obj)))) [0, 1, 2]),
      map Fin (map (\<lambda>i. Max ((\<lambda>c. vec_nth c i) ` (\<Union>obj\<in>set mesh_objects. set (bbox_corners obj)))) [0, 1, 2]))"
  using fold_corners_Min_Max [OF assms] by (simp add: bounding_box_concat)

text \<open>
  C2: for every non-empty list of mesh objects, each with 8 bounding-box corners, the
  accumulator returns a finite box that contains every world-space corner
  (containment), whose every minimum and maximum component is a component of some
  corner (tightness), and that is the same for every other list of objects with the
  same set of world-space corners, in particular for every reordering of the objects and
  of the corners within them (order independence).
\<close>

theorem C2_bounding_box:
  assumes "mesh_objects \<noteq> []" and "\<forall>obj\<in>set mesh_objects. length (bound_box obj) = 8"
  shows "\<exists>lo hi. length lo = 3 \<and> length hi = 3 \<and>
    bounding_box mesh_objects = (map Fin lo, map Fin hi) \<and>
    (\<forall>obj\<in>set mesh_objects. \<forall>c\<in>set (bbox_corners obj). \<forall>i<3.
        lo ! i \<le> vec_nth c i \<and> vec_nth c i \<le> hi ! i) \<and>
    (\<forall>i<3. (\<exists>obj\<in>set mesh_objects. \<exists>c\<in>set (bbox_corners obj). vec_nth c i = lo ! i) \<and>
           (\<exists>obj\<in>set mesh_objects. \<exists>c\<in>set (bbox_corners obj). vec_nth c i = hi ! i)) \<and>
    (\<forall>objs'. (\<Union>obj\<in>set objs'. set (bbox_corners obj)) = (\<Union>obj\<in>set mesh_objects. set (bbox_corners obj))
        \<longrightarrow> bounding_box objs' = bounding_box mesh_objects)"
proof -
  define S where "S = (\<Union>obj\<in>set mesh_objects. set (bbox_corners obj))"
  define lo where "lo = map (\<lambda>i. Min ((\<lambda>c. vec_nth c i) ` S)) [0, 1, 2]"
  define hi where "hi = map (\<lambda>i. Max ((\<lambda>c. vec_nth c i) ` S)) [0, 1, 2]"
  have ne: "concat (map bbox_corners mesh_objects) \<noteq> []"
    using assms by (rule corners_nonempty)
  have fin: "finite S" by (simp add: S_def)
  have Sne: "S \<noteq> {}" using ne by (auto simp: S_def)
  have lo_nth: "lo ! i = Min ((\<lambda>c. vec_nth c i) ` S)" if "i < 3" for i
  proof -
    from that have "i = 0 \<or> i = 1 \<or> i = 2" by arith
    then show ?thesis by (auto simp: lo_def)
  qed
  have hi_nth: "hi ! i = Max ((\<lambda>c. vec_nth c i) ` S)" if "i < 3" for i
  proof -
    from that have "i = 0 \<or> i = 1 \<or> i = 2" by arith
    then show ?thesis by (auto simp: hi_def)
  qed
  have box: "bounding_box mesh_objects = (map Fin lo, map Fin hi)"
    using bounding_box_Min_Max [OF ne] by (simp add: lo_def hi_def S_def)
  have contain: "lo ! i \<le> vec_nth c i \<and> vec_nth c i \<le> hi ! i"
    if "obj \<in> set mesh_objects" "c \<in> set (bbox_corners obj)" "i < 3" for obj c i
  proof -
    from that have "c \<in> S" by (auto simp: S_def)
    then show ?thesis using fin that(3) by (simp add: lo_nth hi_nth)
  qed
  have attained: "(\<exists>obj\<in>set mesh_objects. \<exists>c\<in>set (bbox_corners obj). vec_nth c i = lo ! i) \<and>
                  (\<exists>obj\<in>set mesh_objects. \<exists>c\<in>set (bbox_corners obj). vec_nth c i = hi ! i)"
    if "i < 3" for i
  proof -
    have "Min ((\<lambda>c. vec_nth c i) ` S) \<in> (\<lambda>c. vec_nth c i) ` S"
      using fin Sne by (intro Min_in) auto
    then obtain c where "c \<in> S" and "Min ((\<lambda>c. vec_nth c i) ` S) = vec_nth c i"
      by blast
    then have "c \<in> S" and "vec_nth c i = lo ! i"
      using that by (simp_all add: lo_nth)
    then have l: "\<exists>obj\<in>set mesh_objects. \<exists>c\<in>set (bbox_corners obj). vec_nth c i = lo ! i"
      unfolding S_def by blast
    have "Max ((\<lambda>c. vec_nth c i) ` S) \<in> (\<lambda>c. vec_nth c i) ` S"
      using fin Sne by (intro Max_in) auto
    then obtain d where "d \<in> S" and "Max ((\<lambda>c. vec_nth c i) ` S) = vec_nth d i"
      by blast
    then have "d \<in> S" and "vec_nth d i = hi ! i"
      using that by (simp_all add: hi_nth)
    then have "\<exists>obj\<in>set mesh_objects. \<exists>c\<in>set (bbox_corners obj). vec_nth c i = hi ! i"
      unfolding S_def by blast
    with l show ?thesis by blast
  qed
  have order: "bounding_box objs' = bounding_box mesh_objects"
    if "(\<Union>obj\<in>set objs'. set (bbox_corners obj)) = (\<Union>obj\<in>set mesh_objects. set (bbox_corners obj))"
    for objs'
  proof -
    have "set (concat (map bbox_corners objs')) = S" using that by (simp add: S_def)
    with Sne have "concat (map bbox_corners objs') \<noteq> []" by auto
    from bounding_box_Min_Max [OF this] that box show ?thesis
      by (simp add: lo_def hi_def S_def)
  qed
  have "length lo = 3" "length hi = 3" by (simp_all add: lo_def hi_def)
  with box contain attained order show ?thesis by blast
qed

lemma bounding_box_unit_cube:
  "bounding_box [unit_cube] = ([Fin (-1), Fin (-1), Fin 0], [Fin 1, Fin 1, Fin 2])"
  by (simp add: bounding_box_def update_obj_def bbox_corners_def unit_cube_def
      update_corner_init update_corner_triple py_min_Fin py_max_Fin)

theorem C2_bounding_box_witness:
  "[unit_cube] \<noteq> [] \<and> length (bound_box unit_cube) = 8 \<and>
   bounding_box [unit_cube] = (map Fin [-1, -1, 0], map Fin [1, 1, 2]) \<and>
   (\<exists>lo hi. bounding_box [unit_cube] = (map Fin lo, map Fin hi) \<and>
      list_all (\<lambda>c. list_all (\<lambda>i. lo ! i \<le> vec_nth c i \<and> vec_nth c i \<le> hi ! i) [0, 1, 2])
         (bbox_corners unit_cube))"
proof -
  have h1: "[unit_cube] \<noteq> []" by simp
  have h2: "\<forall>obj\<in>set [unit_cube]. length (bound_box obj) = 8" by (simp add: unit_cube_def)
  from C2_bounding_box [OF h1 h2] obtain lo hi where
    b: "bounding_box [unit_cube] = (map Fin lo, map Fin hi)" and
    c: "\<forall>obj\<in>set [unit_cube]. \<forall>c\<in>set (bbox_corners obj). \<forall>i<3.
        lo ! i \<le> vec_nth c i \<and> vec_nth c i \<le> hi ! i" by blast
  from c have "list_all (\<lambda>c. list_all (\<lambda>i. lo ! i \<le> vec_nth c i \<and> vec_nth c i \<le> hi ! i) [0, 1, 2])
         (bbox_corners unit_cube)"
    by (simp add: list_all_iff)
  with b have "\<exists>lo hi. bounding_box [unit_cube] = (map Fin lo, map Fin hi) \<and>
      list_all (\<lambda>c. list_all (\<lambda>i. lo ! i \<le> vec_nth c i \<and> vec_nth c i \<le> hi ! i) [0, 1, 2])
         (bbox_corners unit_cube)" by blast
  then show ?thesis
    by (simp add: bounding_box_unit_cube) (simp add: unit_cube_def)
qed


section \<open>Properties of the foundation stage\<close>

lemma ext_obj: "lower (splitext_ext ''model.obj'') = ''.obj''"
  by (simp add: lower_def splitext_ext_def rfind_def char_lower_def Let_def upt_rec)

lemma ext_STL: "lower (splitext_ext ''/tmp/out.v2/Model.STL'') = ''.stl''"
  by (simp add: lower_def splitext_ext_def rfind_def char_lower_def Let_def upt_rec)

lemma ext_stl: "lower (splitext_ext ''out.stl'') = ''.stl''"
  by (simp add: lower_def splitext_ext_def rfind_def char_lower_def Let_def upt_rec)

lemma ext_glb: "lower (splitext_ext ''out.glb'') = ''.glb''"
  by (simp add: lower_def splitext_ext_def rfind_def char_lower_def Let_def upt_rec)

lemma ext_hidden: "lower (splitext_ext ''dir/.stl'') = ''''"
  by (simp add: lower_def splitext_ext_def rfind_def char_lower_def Let_def upt_rec)

text \<open>
  C5: when the imported scene has no object of type \<^verbatim>\<open>MESH\<close>, the stage prints
  \<^verbatim>\<open>No mesh objects found in GLB file!\<close> and returns \<open>False\<close>; the only host
  operations are the clearing of the scene and the import, so no bounding box is used, no
  cylinder is created and no file is exported.
\<close>

theorem C5_no_mesh_objects:
  assumes "filter (\<lambda>obj. obj_type obj = ''MESH'') (import_scene glb_path) = []"
  shows "add_circular_foundation import_scene glb_path output_path margin_ratio thickness_ratio min_thickness =
           ([SelectAll, DeleteSelected, Print (''Importing '' @ glb_path @ ''...''), ImportGltf glb_path,
             Print ''No mesh objects found in GLB file!''], False) \<and>
         \<not> list_ex is_cylinder_add
             (fst (add_circular_foundation import_scene glb_path output_path margin_ratio thickness_ratio min_thickness)) \<and>
         \<not> list_ex is_file_export
             (fst (add_circular_foundation import_scene glb_path output_path margin_ratio thickness_ratio min_thickness))"
  using assms by (simp add: add_circular_foundation_def clear_scene_def Let_def)

theorem C5_no_mesh_objects_witness:
  "filter (\<lambda>obj. obj_type obj = ''MESH'') ((\<lambda>path. [camera_obj]) ''empty.glb'') = [] \<and>
   add_circular_foundation (\<lambda>path. [camera_obj]) ''empty.glb'' ''out.stl'' (Fin 0.1) (Fin 0.05) (Fin 0.05) =
     ([SelectAll, DeleteSelected, Print ''Importing empty.glb...'', ImportGltf ''empty.glb'',
       Print ''No mesh objects found in GLB file!''], False)"
  using C5_no_mesh_objects [of "\<lambda>path. [camera_obj]" "''empty.glb''" "''out.stl''" "Fin 0.1" "Fin 0.05" "Fin 0.05"]
  by (simp add: camera_obj_def)

lemma add_circular_foundation_nonempty:
  assumes "filter (\<lambda>obj. obj_type obj = ''MESH'') (import_scene glb_path) \<noteq> []"
    and "bounding_box (filter (\<lambda>obj. obj_type obj = ''MESH'') (import_scene glb_path)) = (min_coords, max_coords)"
  shows "add_circular_foundation import_scene glb_path output_path margin_ratio thickness_ratio min_thickness =
     (let p = foundation_sizing min_coords max_coords margin_ratio thickness_ratio min_thickness;
          built = [SelectAll, DeleteSelected, Print (''Importing '' @ glb_path @ ''...''), ImportGltf glb_path,
                   PrintDimensions (x_size p) (y_size p),
                   PrintFoundation (foundation_radius p) (foundation_thickness p),
                   CylinderAdd (foundation_radius p) (foundation_thickness p)
                     (center_x p, center_y p, foundation_z p) 64,
                   RenameActive ''Foundation'',
                   SelectAll,
                   SetActiveObject (obj_name (hd (filter (\<lambda>obj. obj_type obj = ''MESH'') (import_scene glb_path)))),
                   JoinObjects]
      in if lower (splitext_ext output_path) = ''.stl'' then
        (built @ [Print (''Exporting to STL: '' @ output_path), StlExport output_path,
                  Print ''Foundation added successfully!''], True)
      else if lower (splitext_ext output_path) \<in> set [''.glb'', ''.gltf''] then
        (built @ [Print (''Exporting to GLB: '' @ output_path), GltfExport output_path ''GLB'',
                  Print ''Foundation added successfully!''], True)
      else (built @ [Print (''Unsupported format: '' @ lower (splitext_ext output_path))], False))"
  using assms by (simp add: add_circular_foundation_def clear_scene_def Let_def)

text \<open>
  C1: for every scene with a mesh object whose accumulated box is \<open>min_coords\<close>,
  \<open>max_coords\<close>, and every margin ratio, thickness ratio and minimum thickness,
  finite or not, the stage prints and hands to the host exactly the values of the
  formulas: \<open>x_size = max.x - min.x\<close>, \<open>y_size = max.y - min.y\<close>,
  \<open>max_dimension = max(x_size, y_size)\<close>,
  \<open>radius = (max_dimension / 2) * (1 + margin_ratio)\<close>,
  \<open>thickness = max(max_dimension * thickness_ratio, min_thickness)\<close>,
  \<open>center = ((min.x + max.x) / 2, (min.y + max.y) / 2)\<close> and
  \<open>z = min.z - thickness / 2\<close>, each operation being the float operation of Python
  in the order written. For the box \<open>(-1,-1,0)\<close>, \<open>(1,1,2)\<close> and the defaults
  0.1, 0.05, 0.05 the values are the floats 2, 2, 2, 1.1, 0.1, (0, 0) and -0.05; with
  thickness ratio 0.01 the product is the float 0.02, the floor applies and the thickness
  is the float 0.05.
\<close>

theorem C1_foundation_sizing:
  "(filter (\<lambda>obj. obj_type obj = ''MESH'') (import_scene glb_path) \<noteq> [] \<and>
    bounding_box (filter (\<lambda>obj. obj_type obj = ''MESH'') (import_scene glb_path)) =
      ([x0, y0, z0], [x1, y1, z1]) \<longrightarrow>
    (let xs = fsub x1 x0;
         ys = fsub y1 y0;
         md = py_max xs ys;
         radius = fmul (fdiv2 md) (fadd (Fin 1) margin_ratio);
         thickness = py_max (fmul md thickness_ratio) min_thickness;
         cx = fdiv2 (fadd x0 x1);
         cy = fdiv2 (fadd y0 y1);
         z = fsub z0 (fdiv2 thickness);
         ops = fst (add_circular_foundation import_scene glb_path output_path
                      margin_ratio thickness_ratio min_thickness)
     in filter is_cylinder_add ops = [CylinderAdd radius thickness (cx, cy, z) 64] \<and>
        PrintDimensions xs ys \<in> set ops \<and>
        PrintFoundation radius thickness \<in> set ops)) \<and>
   (let p = foundation_sizing [Fin (-1), Fin (-1), Fin 0] [Fin 1, Fin 1, Fin 2]
              (round_double 0.1) (round_double 0.05) (round_double 0.05)
    in x_size p = Fin 2 \<and> y_size p = Fin 2 \<and> max_dimension p = Fin 2 \<and>
       foundation_radius p = round_double 1.1 \<and> foundation_thickness p = round_double 0.1 \<and>
       center_x p = Fin 0 \<and> center_y p = Fin 0 \<and> foundation_z p = round_double (- 0.05)) \<and>
   (let p = foundation_sizing [Fin (-1), Fin (-1), Fin 0] [Fin 1, Fin 1, Fin 2]
              (round_double 0.1) (round_double 0.01) (round_double 0.05)
    in fmul (max_dimension p) (round_double 0.01) = round_double 0.02 \<and>
       foundation_thickness p = round_double 0.05)"
proof (intro conjI impI)
  assume a: "filter (\<lambda>obj. obj_type obj = ''MESH'') (import_scene glb_path) \<noteq> [] \<and>
    bounding_box (filter (\<lambda>obj. obj_type obj = ''MESH'') (import_scene glb_path)) =
      ([x0, y0, z0], [x1, y1, z1])"
  then have ne: "filter (\<lambda>obj. obj_type obj = ''MESH'') (import_scene glb_path) \<noteq> []"
    and b: "bounding_box (filter (\<lambda>obj. obj_type obj = ''MESH'') (import_scene glb_path)) =
      ([x0, y0, z0], [x1, y1, z1])" by simp_all
  show "let xs = fsub x1 x0;
         ys = fsub y1 y0;
         md = py_max xs ys;
         radius = fmul (fdiv2 md) (fadd (Fin 1) margin_ratio);
         thickness = py_max (fmul md thickness_ratio) min_thickness;
         cx = fdiv2 (fadd x0 x1);
         cy = fdiv2 (fadd y0 y1);
         z = fsub z0 (fdiv2 thickness);
         ops = fst (add_circular_foundation import_scene glb_path output_path
                      margin_ratio thickness_ratio min_thickness)
     in filter is_cylinder_add ops = [CylinderAdd radius thickness (cx, cy, z) 64] \<and>
        PrintDimensions xs ys \<in> set ops \<and>
        PrintFoundation radius thickness \<in> set ops"
    by (simp add: add_circular_foundation_nonempty
          [where import_scene = import_scene and glb_path = glb_path, OF ne b]
        Let_def foundation_sizing_def)
next
  show "let p = foundation_sizing [Fin (-1), Fin (-1), Fin 0] [Fin 1, Fin 1, Fin 2]
              (round_double 0.1) (round_double 0.05) (round_double 0.05)
    in x_size p = Fin 2 \<and> y_size p = Fin 2 \<and> max_dimension p = Fin 2 \<and>
       foundation_radius p = round_double 1.1 \<and> foundation_thickness p = round_double 0.1 \<and>
       center_x p = Fin 0 \<and> center_y p = Fin 0 \<and> foundation_z p = round_double (- 0.05)"
    using sizing_unit_box by simp
next
  show "let p = foundation_sizing [Fin (-1), Fin (-1), Fin 0] [Fin 1, Fin 1, Fin 2]
              (round_double 0.1) (round_double 0.01) (round_double 0.05)
    in fmul (max_dimension p) (round_double 0.01) = round_double 0.02 \<and>
       foundation_thickness p = round_double 0.05"
    by (simp add: foundation_sizing_def fsub_def py_max_def Let_def rd_evals)
qed

theorem C1_foundation_sizing_witness:
  "filter (\<lambda>obj. obj_type obj = ''MESH'') ((\<lambda>path. [unit_cube]) ''in.glb'') \<noteq> [] \<and>
   bounding_box (filter (\<lambda>obj. obj_type obj = ''MESH'') ((\<lambda>path. [unit_cube]) ''in.glb'')) =
     ([Fin (-1), Fin (-1), Fin 0], [Fin 1, Fin 1, Fin 2]) \<and>
   filter is_cylinder_add
     (fst (add_circular_foundation (\<lambda>path. [unit_cube]) ''in.glb'' ''out.stl''
             (round_double 0.1) (round_double 0.05) (round_double 0.05))) =
     [CylinderAdd (round_double 1.1) (round_double 0.1) (Fin 0, Fin 0, round_double (- 0.05)) 64] \<and>
   round_double 1.1 = Fin (2476979795053773 / 2251799813685248) \<and>
   round_double 0.1 = Fin (3602879701896397 / 36028797018963968) \<and>
   round_double (- 0.05) = Fin (- (3602879701896397 / 72057594037927936))"
proof -
  have ne: "filter (\<lambda>obj. obj_type obj = ''MESH'') ((\<lambda>path. [unit_cube]) ''in.glb'') \<noteq> []"
    by (simp add: unit_cube_def)
  have b: "bounding_box (filter (\<lambda>obj. obj_type obj = ''MESH'') ((\<lambda>path. [unit_cube]) ''in.glb'')) =
             ([Fin (-1), Fin (-1), Fin 0], [Fin 1, Fin 1, Fin 2])"
    using bounding_box_unit_cube by (simp add: unit_cube_def)
  note c1 = C1_foundation_sizing [where import_scene = "\<lambda>path. [unit_cube]" and glb_path = "''in.glb''"
      and output_path = "''out.stl''" and margin_ratio = "round_double 0.1"
      and thickness_ratio = "round_double 0.05" and min_thickness = "round_double 0.05",
      THEN conjunct1, rule_format, OF conjI [OF ne b]]
  have "filter is_cylinder_add
     (fst (add_circular_foundation (\<lambda>path. [unit_cube]) ''in.glb'' ''out.stl''
             (round_double 0.1) (round_double 0.05) (round_double 0.05))) =
     [CylinderAdd (round_double 1.1) (round_double 0.1) (Fin 0, Fin 0, round_double (- 0.05)) 64]"
    using c1 unfolding Let_def by (simp add: fsub_def py_max_def rd_evals)
  with ne b show ?thesis by (simp add: rd_evals)
qed

text \<open>
  C6: once the scene has a mesh object, the stage dispatches on the lower-cased extension
  of the output path. Any extension other than \<^verbatim>\<open>.stl\<close>, \<^verbatim>\<open>.glb\<close> and
  \<^verbatim>\<open>.gltf\<close> ends with the message \<^verbatim>\<open>Unsupported format: <ext>\<close>, the result
  \<open>False\<close> and no export operation; \<^verbatim>\<open>.stl\<close> gives exactly one export, by the STL
  exporter, and \<^verbatim>\<open>.glb\<close> or \<^verbatim>\<open>.gltf\<close> exactly one, by the glTF exporter; both
  return \<open>True\<close>.
\<close>

theorem C6_export_dispatch:
  assumes "filter (\<lambda>obj. obj_type obj = ''MESH'') (import_scene glb_path) \<noteq> []"
  shows "let file_ext = lower (splitext_ext output_path);
             r = add_circular_foundation import_scene glb_path output_path margin_ratio thickness_ratio min_thickness
         in (file_ext \<notin> {''.stl'', ''.glb'', ''.gltf''} \<longrightarrow>
               snd r = False \<and> last (fst r) = Print (''Unsupported format: '' @ file_ext) \<and>
               filter is_file_export (fst r) = []) \<and>
            (file_ext = ''.stl'' \<longrightarrow>
               snd r = True \<and> filter is_file_export (fst r) = [StlExport output_path]) \<and>
            (file_ext \<in> {''.glb'', ''.gltf''} \<longrightarrow>
               snd r = True \<and> filter is_file_export (fst r) = [GltfExport output_path ''GLB''])"
proof -
  obtain min_coords max_coords where
    b: "bounding_box (filter (\<lambda>obj. obj_type obj = ''MESH'') (import_scene glb_path)) = (min_coords, max_coords)"
    by (cases "bounding_box (filter (\<lambda>obj. obj_type obj = ''MESH'') (import_scene glb_path))") auto
  show ?thesis
    by (simp add: add_circular_foundation_nonempty [where import_scene = import_scene and glb_path = glb_path, OF assms b] Let_def)
qed

theorem C6_export_dispatch_witness:
  "filter (\<lambda>obj. obj_type obj = ''MESH'') ((\<lambda>path. [unit_cube]) ''in.glb'') \<noteq> [] \<and>
   lower (splitext_ext ''model.obj'') = ''.obj'' \<and>
   snd (add_circular_foundation (\<lambda>path. [unit_cube]) ''in.glb'' ''model.obj'' (Fin 0.1) (Fin 0.05) (Fin 0.05)) = False \<and>
   last (fst (add_circular_foundation (\<lambda>path. [unit_cube]) ''in.glb'' ''model.obj'' (Fin 0.1) (Fin 0.05) (Fin 0.05)))
     = Print ''Unsupported format: .obj'' \<and>
   filter is_file_export
     (fst (add_circular_foundation (\<lambda>path. [unit_cube]) ''in.glb'' ''model.obj'' (Fin 0.1) (Fin 0.05) (Fin 0.05))) = [] \<and>
   lower (splitext_ext ''/tmp/out.v2/Model.STL'') = ''.stl'' \<and>
   filter is_file_export
     (fst (add_circular_foundation (\<lambda>path. [unit_cube]) ''in.glb'' ''/tmp/out.v2/Model.STL'' (Fin 0.1) (Fin 0.05) (Fin 0.05)))
     = [StlExport ''/tmp/out.v2/Model.STL'']"
proof -
  have h: "filter (\<lambda>obj. obj_type obj = ''MESH'') ((\<lambda>path. [unit_cube]) ''in.glb'') \<noteq> []"
    by (simp add: unit_cube_def)
  show ?thesis
    using h
      C6_export_dispatch [where import_scene = "\<lambda>path. [unit_cube]" and glb_path = "''in.glb''", OF h, where output_path = "''model.obj''" and margin_ratio = "Fin 0.1"
          and thickness_ratio = "Fin 0.05" and min_thickness = "Fin 0.05"]
      C6_export_dispatch [where import_scene = "\<lambda>path. [unit_cube]" and glb_path = "''in.glb''", OF h, where output_path = "''/tmp/out.v2/Model.STL''" and margin_ratio = "Fin 0.1"
          and thickness_ratio = "Fin 0.05" and min_thickness = "Fin 0.05"]
    by (simp add: Let_def ext_obj ext_STL)
qed

lemma bounding_box_point_obj:
  "bounding_box [point_obj] = ([Fin 0, Fin 0, Fin 0], [Fin 0, Fin 0, Fin 0])"
  by (simp add: bounding_box_def update_obj_def bbox_corners_def point_obj_def
      update_corner_init update_corner_triple py_min_Fin py_max_Fin)

lemma sizing_point_box:
  "foundation_sizing [Fin 0, Fin 0, Fin 0] [Fin 0, Fin 0, Fin 0]
     (round_double 0.1) (round_double 0.05) (round_double 0.05) =
   \<lparr> x_size = Fin 0, y_size = Fin 0, z_min = Fin 0, max_dimension = Fin 0,
     foundation_radius = Fin 0, foundation_thickness = round_double 0.05,
     center_x = Fin 0, center_y = Fin 0, foundation_z = round_double (- 0.025) \<rparr>"
  by (simp add: foundation_sizing_def fsub_def py_max_def Let_def rd_evals)

text \<open>
  C3 (as amended): when the bounding box of the mesh objects has \<open>max_dimension = 0\<close>,
  the stage does not fail on that account. Whatever the ratios, it asks the host for
  exactly one cylinder, joins it with the model, and its result depends on the output
  extension alone, as for any other input. When \<open>1 + margin_ratio\<close>, the thickness
  ratio and the minimum thickness are finite, the cylinder has radius \<open>0\<close> and depth
  \<open>max(0, min_thickness)\<close>. By \<open>add_one_finite\<close> above, \<open>1 + margin_ratio\<close>
  is finite for every finite binary64 margin ratio.
\<close>

theorem C3_zero_dimension_proceeds:
  assumes "filter (\<lambda>obj. obj_type obj = ''MESH'') (import_scene glb_path) = mesh_objects"
    and "mesh_objects \<noteq> []"
    and "max_dimension (foundation_sizing (fst (bounding_box mesh_objects)) (snd (bounding_box mesh_objects))
           margin_ratio thickness_ratio min_thickness) = Fin 0"
  shows "let r = add_circular_foundation import_scene glb_path output_path
                   margin_ratio thickness_ratio min_thickness
         in (\<exists>radius depth loc. filter is_cylinder_add (fst r) = [CylinderAdd radius depth loc 64]) \<and>
            JoinObjects \<in> set (fst r) \<and>
            snd r = (lower (splitext_ext output_path) \<in> {''.stl'', ''.glb'', ''.gltf''}) \<and>
            (fadd (Fin 1) margin_ratio = Fin s \<and> thickness_ratio = Fin t \<and> min_thickness = Fin mt \<longrightarrow>
               (\<exists>loc. filter is_cylinder_add (fst r) = [CylinderAdd (Fin 0) (Fin (max 0 mt)) loc 64]))"
proof -
  obtain lo hi where b: "bounding_box mesh_objects = (lo, hi)" by (cases "bounding_box mesh_objects")
  have ne: "filter (\<lambda>obj. obj_type obj = ''MESH'') (import_scene glb_path) \<noteq> []"
    using assms(1,2) by simp
  have b': "bounding_box (filter (\<lambda>obj. obj_type obj = ''MESH'') (import_scene glb_path)) = (lo, hi)"
    using assms(1) b by simp
  from assms(3) have z: "py_max (fsub (hi ! 0) (lo ! 0)) (fsub (hi ! Suc 0) (lo ! Suc 0)) = Fin 0"
    by (simp add: b foundation_sizing_def Let_def)
  show ?thesis
    by (simp add: add_circular_foundation_nonempty
          [where import_scene = import_scene and glb_path = glb_path, OF ne b']
        Let_def foundation_sizing_def z rd_0 py_max_Fin)
qed

theorem C3_zero_dimension_proceeds_witness:
  "filter (\<lambda>obj. obj_type obj = ''MESH'') ((\<lambda>path. [point_obj]) ''in.glb'') = [point_obj] \<and>
   [point_obj] \<noteq> [] \<and>
   max_dimension (foundation_sizing (fst (bounding_box [point_obj])) (snd (bounding_box [point_obj]))
           (round_double 0.1) (round_double 0.05) (round_double 0.05)) = Fin 0 \<and>
   fadd (Fin 1) (round_double 0.1) = round_double 1.1 \<and>
   round_double 1.1 = Fin (2476979795053773 / 2251799813685248) \<and>
   round_double 0.05 = Fin (3602879701896397 / 72057594037927936) \<and>
   (\<exists>loc. filter is_cylinder_add
      (fst (add_circular_foundation (\<lambda>path. [point_obj]) ''in.glb'' ''out.glb''
              (round_double 0.1) (round_double 0.05) (round_double 0.05)))
        = [CylinderAdd (Fin 0) (round_double 0.05) loc 64]) \<and>
   JoinObjects \<in> set (fst (add_circular_foundation (\<lambda>path. [point_obj]) ''in.glb'' ''out.glb''
              (round_double 0.1) (round_double 0.05) (round_double 0.05))) \<and>
   snd (add_circular_foundation (\<lambda>path. [point_obj]) ''in.glb'' ''out.glb''
              (round_double 0.1) (round_double 0.05) (round_double 0.05)) = True"
proof -
  have h1: "filter (\<lambda>obj. obj_type obj = ''MESH'') ((\<lambda>path. [point_obj]) ''in.glb'') = [point_obj]"
    by (simp add: point_obj_def)
  have h2: "[point_obj] \<noteq> []" by simp
  have h3: "max_dimension (foundation_sizing (fst (bounding_box [point_obj])) (snd (bounding_box [point_obj]))
           (round_double 0.1) (round_double 0.05) (round_double 0.05)) = Fin 0"
    using sizing_point_box by (simp add: bounding_box_point_obj)
  have f: "fadd (Fin 1) (round_double 0.1) = Fin (2476979795053773 / 2251799813685248) \<and>
           round_double 0.05 = Fin (3602879701896397 / 72057594037927936) \<and>
           round_double 0.05 = Fin (3602879701896397 / 72057594037927936)"
    by (simp add: rd_evals)
  note c3 = C3_zero_dimension_proceeds [where import_scene = "\<lambda>path. [point_obj]" and glb_path = "''in.glb''"
      and output_path = "''out.glb''" and s = "2476979795053773 / 2251799813685248"
      and t = "3602879701896397 / 72057594037927936" and mt = "3602879701896397 / 72057594037927936",
      OF h1 h2 h3]
  from c3 f have "(\<exists>loc. filter is_cylinder_add
      (fst (add_circular_foundation (\<lambda>path. [point_obj]) ''in.glb'' ''out.glb''
              (round_double 0.1) (round_double 0.05) (round_double 0.05)))
        = [CylinderAdd (Fin 0) (Fin (max 0 (3602879701896397 / 72057594037927936))) loc 64]) \<and>
     JoinObjects \<in> set (fst (add_circular_foundation (\<lambda>path. [point_obj]) ''in.glb'' ''out.glb''
              (round_double 0.1) (round_double 0.05) (round_double 0.05))) \<and>
     snd (add_circular_foundation (\<lambda>path. [point_obj]) ''in.glb'' ''out.glb''
              (round_double 0.1) (round_double 0.05) (round_double 0.05)) =
       (lower (splitext_ext ''out.glb'') \<in> {''.stl'', ''.glb'', ''.gltf''})"
    unfolding Let_def by blast
  then show ?thesis using h1 h3 by (simp add: ext_glb rd_evals)
qed

text \<open>
  The claim as written fails: for a mesh whose corners all lie at the origin and the
  output \<^verbatim>\<open>out.stl\<close> the stage creates the zero-radius cylinder, joins, exports and
  returns \<open>True\<close>.
\<close>

theorem C3_zero_radius_counterexample:
  "max_dimension (foundation_sizing (fst (bounding_box [point_obj])) (snd (bounding_box [point_obj]))
           (round_double 0.1) (round_double 0.05) (round_double 0.05)) = Fin 0 \<and>
   add_circular_foundation (\<lambda>path. [point_obj]) ''in.glb'' ''out.stl''
       (round_double 0.1) (round_double 0.05) (round_double 0.05) =
     ([SelectAll, DeleteSelected, Print ''Importing in.glb...'', ImportGltf ''in.glb'',
       PrintDimensions (Fin 0) (Fin 0), PrintFoundation (Fin 0) (round_double 0.05),
       CylinderAdd (Fin 0) (round_double 0.05) (Fin 0, Fin 0, round_double (- 0.025)) 64,
       RenameActive ''Foundation'', SelectAll, SetActiveObject ''Point'', JoinObjects,
       Print ''Exporting to STL: out.stl'', StlExport ''out.stl'',
       Print ''Foundation added successfully!''], True)"
proof -
  have ne: "filter (\<lambda>obj. obj_type obj = ''MESH'') ((\<lambda>path. [point_obj]) ''in.glb'') \<noteq> []"
    by (simp add: point_obj_def)
  have b: "bounding_box (filter (\<lambda>obj. obj_type obj = ''MESH'') ((\<lambda>path. [point_obj]) ''in.glb'')) =
             ([Fin 0, Fin 0, Fin 0], [Fin 0, Fin 0, Fin 0])"
    using bounding_box_point_obj by (simp add: point_obj_def)
  note e = ext_stl
  have n: "obj_name point_obj = ''Point''" by (simp add: point_obj_def)
  show ?thesis
    using sizing_point_box
    by (simp add: add_circular_foundation_nonempty
          [where import_scene = "\<lambda>path. [point_obj]" and glb_path = "''in.glb''", OF ne b]
        Let_def bounding_box_point_obj e)
      (simp add: point_obj_def)
qed

section \<open>Properties of the command lines\<close>

lemma main_with_args_one:
  "length argv = 1 \<Longrightarrow> main_with_args path_exists py_float import_scene argv = ([], Raised IndexError)"
  by (simp add: main_with_args_def)

text \<open>
  C10: the guard of the foundation tool tests the length of the raw \<^verbatim>\<open>sys.argv\<close>
  before the arguments up to \<^verbatim>\<open>--\<close> are stripped. Whenever the raw list has at least
  six entries and exactly one argument follows the separator, the guard passes, no usage
  message is printed and reading \<^verbatim>\<open>argv[1]\<close> raises \<^verbatim>\<open>IndexError\<close>. The list
  \<^verbatim>\<open>blender --background --python add_foundation_blender.py -- input.glb\<close> of
  length six is such an invocation.
\<close>

theorem C10_guard_counts_raw_argv:
  assumes "6 \<le> length sys_argv"
    and "length (args_after_separator sys_argv) = 1"
  shows "main_add_foundation path_exists py_float import_scene sys_argv = ([], Raised IndexError)"
  using assms by (simp add: main_add_foundation_def main_with_args_one)

theorem C10_guard_counts_raw_argv_witness:
  "length [''blender'', ''--background'', ''--python'', ''add_foundation_blender.py'', ''--'', ''input.glb''] = 6 \<and>
   args_after_separator
     [''blender'', ''--background'', ''--python'', ''add_foundation_blender.py'', ''--'', ''input.glb''] = [''input.glb''] \<and>
   main_add_foundation (\<lambda>path. True) (\<lambda>s. Some (Fin 0.1)) (\<lambda>path. [unit_cube])
     [''blender'', ''--background'', ''--python'', ''add_foundation_blender.py'', ''--'', ''input.glb'']
     = ([], Raised IndexError)"
  using C10_guard_counts_raw_argv [of
      "[''blender'', ''--background'', ''--python'', ''add_foundation_blender.py'', ''--'', ''input.glb'']"
      "\<lambda>path. True" "\<lambda>s. Some (Fin 0.1)" "\<lambda>path. [unit_cube]"]
  by (simp add: index_of_def args_after_separator_def)

lemma main_with_args_missing:
  assumes "2 \<le> length argv"
    and "2 < length argv \<longrightarrow> py_float (argv ! 2) \<noteq> None"
    and "3 < length argv \<longrightarrow> py_float (argv ! 3) \<noteq> None"
    and "\<not> path_exists (argv ! 0)"
  shows "main_with_args path_exists py_float import_scene argv =
           ([Print (''Input file not found: '' @ argv ! 0)], Returned)"
proof -
  obtain m where m: "(if length argv > 2 then py_float (argv ! 2) else Some (round_double 0.1)) = Some m"
    using assms(2) by (cases "2 < length argv") auto
  obtain t where t: "(if length argv > 3 then py_float (argv ! 3) else Some (round_double 0.05)) = Some t"
    using assms(3) by (cases "3 < length argv") auto
  have l: "\<not> length argv \<le> 0" "\<not> length argv \<le> 1" using assms(1) by arith+
  show ?thesis
    unfolding main_with_args_def Let_def
    by (simp only: l if_False m t option.case assms(4) not_False_eq_True if_True)
qed

lemma main_with_args_no_call:
  assumes "\<not> path_exists (argv ! 0)"
  shows "\<not> list_ex is_host_call (fst (main_with_args path_exists py_float import_scene argv))"
proof -
  have "fst (main_with_args path_exists py_float import_scene argv) = [] \<or>
        fst (main_with_args path_exists py_float import_scene argv) =
          [Print (''Input file not found: '' @ argv ! 0)]"
    unfolding main_with_args_def Let_def
    using assms by (simp split: option.splits)
  then show ?thesis by auto
qed

lemma main_add_foundation_no_call:
  assumes "\<not> path_exists (args_after_separator sys_argv ! 0)"
  shows "\<not> list_ex is_host_call (fst (main_add_foundation path_exists py_float import_scene sys_argv))"
  using assms main_with_args_no_call [of path_exists "args_after_separator sys_argv" py_float import_scene]
  by (simp add: main_add_foundation_def usage_add_foundation_def)

lemma main_process_no_run:
  assumes "\<not> (3 \<le> length sys_argv \<and> sys_argv ! 1 \<in> fs)"
  shows "\<not> list_ex is_run (fst (main_process_with_foundation env run sys_argv fs))"
proof (cases "length sys_argv < 3")
  case True
  then show ?thesis by (simp add: main_process_with_foundation_def usage_process_def)
next
  case False
  with assms have "sys_argv ! 1 \<notin> fs" by simp
  with False show ?thesis by (simp add: main_process_with_foundation_def Let_def)
qed

text \<open>
  C9: an invocation with an input path that does not exist prints
  \<^verbatim>\<open>Input file not found: <path>\<close> and returns without any external call. For the
  pipeline driver the invocation gives the input and the output path; for the foundation
  tool the raw argument list passes the guard, has the input and the output path after
  the separator, and its optional ratios are numbers. Moreover, whatever the command
  line, the driver starts a subprocess only if the input path exists, and the foundation
  tool calls the host only if the input path exists.
\<close>

theorem C9_missing_input:
  "(3 \<le> length sys_argv \<and> sys_argv ! 1 \<notin> fs \<longrightarrow>
      main_process_with_foundation env run sys_argv fs =
        ([Tell (''Input file not found: '' @ sys_argv ! 1)], fs, Returned)) \<and>
   (list_ex is_run (fst (main_process_with_foundation env run sys_argv fs)) \<longrightarrow>
      3 \<le> length sys_argv \<and> sys_argv ! 1 \<in> fs) \<and>
   (let argv = args_after_separator blender_argv;
        r = main_add_foundation path_exists py_float import_scene blender_argv
    in (6 \<le> length blender_argv \<and> 2 \<le> length argv \<and>
        (2 < length argv \<longrightarrow> py_float (argv ! 2) \<noteq> None) \<and>
        (3 < length argv \<longrightarrow> py_float (argv ! 3) \<noteq> None) \<and>
        \<not> path_exists (argv ! 0) \<longrightarrow>
          r = ([Print (''Input file not found: '' @ argv ! 0)], Returned)) \<and>
       (list_ex is_host_call (fst r) \<longrightarrow> path_exists (argv ! 0)))"
proof -
  have a: "3 \<le> length sys_argv \<and> sys_argv ! 1 \<notin> fs \<longrightarrow>
      main_process_with_foundation env run sys_argv fs =
        ([Tell (''Input file not found: '' @ sys_argv ! 1)], fs, Returned)"
    by (simp add: main_process_with_foundation_def Let_def)
  have b: "list_ex is_run (fst (main_process_with_foundation env run sys_argv fs)) \<longrightarrow>
      3 \<le> length sys_argv \<and> sys_argv ! 1 \<in> fs"
    using main_process_no_run by blast
  have c: "6 \<le> length blender_argv \<and> 2 \<le> length (args_after_separator blender_argv) \<and>
        (2 < length (args_after_separator blender_argv) \<longrightarrow>
           py_float (args_after_separator blender_argv ! 2) \<noteq> None) \<and>
        (3 < length (args_after_separator blender_argv) \<longrightarrow>
           py_float (args_after_separator blender_argv ! 3) \<noteq> None) \<and>
        \<not> path_exists (args_after_separator blender_argv ! 0) \<longrightarrow>
          main_add_foundation path_exists py_float import_scene blender_argv
            = ([Print (''Input file not found: '' @ args_after_separator blender_argv ! 0)], Returned)"
    using main_with_args_missing [of "args_after_separator blender_argv" py_float path_exists import_scene]
    by (simp add: main_add_foundation_def)
  have d: "list_ex is_host_call (fst (main_add_foundation path_exists py_float import_scene blender_argv))
             \<longrightarrow> path_exists (args_after_separator blender_argv ! 0)"
    using main_add_foundation_no_call by blast
  from a b c d show ?thesis unfolding Let_def by blast
qed

theorem C9_missing_input_witness:
  "(3::nat) \<le> length [''process_with_foundation.py'', ''missing.glb'', ''out.stl''] \<and>
   [''process_with_foundation.py'', ''missing.glb'', ''out.stl''] ! 1 \<notin> ({} :: files) \<and>
   main_process_with_foundation example_env tools_ok
     [''process_with_foundation.py'', ''missing.glb'', ''out.stl''] {} =
     ([Tell ''Input file not found: missing.glb''], {}, Returned) \<and>
   args_after_separator [''blender'', ''--background'', ''--python'', ''add_foundation_blender.py'', ''--'',
       ''missing.glb'', ''out.stl''] = [''missing.glb'', ''out.stl''] \<and>
   main_add_foundation (\<lambda>path. False) (\<lambda>s. None) (\<lambda>path. [unit_cube])
     [''blender'', ''--background'', ''--python'', ''add_foundation_blender.py'', ''--'',
       ''missing.glb'', ''out.stl''] =
     ([Print ''Input file not found: missing.glb''], Returned)"
  using C9_missing_input [where sys_argv = "[''process_with_foundation.py'', ''missing.glb'', ''out.stl'']"
      and fs = "{}" and env = example_env and run = tools_ok
      and blender_argv = "[''blender'', ''--background'', ''--python'', ''add_foundation_blender.py'', ''--'',
       ''missing.glb'', ''out.stl'']"
      and py_float = "\<lambda>s. None" and path_exists = "\<lambda>path. False"
      and import_scene = "\<lambda>path. [unit_cube]"]
  by (simp add: Let_def args_after_separator_def index_of_def)

section \<open>Properties of the repair stage\<close>

lemma smoothing_step_cases:
  "(\<exists>mesh'. smoothing_step lib mesh = ([], mesh')) \<or>
   (\<exists>e. smoothing_step lib mesh = ([Warn ''Warning: Could not smooth mesh: '' e], mesh))"
  by (auto simp: smoothing_step_def laplacian_fallback_def split: option.splits sum.splits)

lemma glb_to_stl_after_load:
  assumes "length sys_argv = 3"
    and "run [''assimp'', ''export'', sys_argv ! 1, ''temp.stl''] fs = (Exited 0, fs1)"
    and "load lib ''temp.stl'' fs1 = Inr mesh0"
  shows "glb_to_stl lib run sys_argv fs =
     (let ev1 = [Say (''Converting '' @ sys_argv ! 1 @ '' to STL...''),
                 RunTool [''assimp'', ''export'', sys_argv ! 1, ''temp.stl''],
                 Say ''Loading and repairing mesh...''];
          w1 = fst (fill_holes_step lib mesh0);
          mesh1 = snd (fill_holes_step lib mesh0)
      in case dedup_step lib mesh1 of
           Inl e \<Rightarrow> (ev1 @ w1, fs1, Raised e)
         | Inr mesh2 \<Rightarrow>
            (let w2 = fst (smoothing_step lib mesh2);
                 mesh3 = snd (smoothing_step lib mesh2);
                 ev2 = ev1 @ w1 @ [Say ''Smoothing mesh...''] @ w2 @ [ExportMesh mesh3 (sys_argv ! 2)]
             in case export_mesh lib mesh3 (sys_argv ! 2) fs1 of
                  Inl e \<Rightarrow> (ev2, fs1, Raised e)
                | Inr fs2 \<Rightarrow>
                   (ev2 @ [Say (''Repaired and smoothed STL saved as '' @ sys_argv ! 2),
                           RemoveFile ''temp.stl''],
                    if ''temp.stl'' \<in> fs2 then fs2 - {''temp.stl''} else fs2,
                    if ''temp.stl'' \<in> fs2 then Returned else Raised OSError)))"
  using assms
  by (simp add: glb_to_stl_def Let_def split_beta split: sum.splits)

lemma fill_holes_step_warn:
  "fill_holes lib mesh = Inl e \<Longrightarrow>
     fill_holes_step lib mesh = ([Warn ''Warning: Could not fill holes: '' e], mesh)"
  by (simp add: fill_holes_step_def)

lemma fill_holes_step_events:
  "filter is_export_mesh (fst (fill_holes_step lib mesh)) = []"
  by (simp add: fill_holes_step_def split: sum.splits)

lemma fill_holes_step_warns:
  "filter is_warn (fst (fill_holes_step lib mesh)) = fst (fill_holes_step lib mesh)"
  by (simp add: fill_holes_step_def split: sum.splits)

lemma smoothing_step_events:
  "filter is_export_mesh (fst (smoothing_step lib mesh)) = []"
  using smoothing_step_cases [of lib mesh] by auto

text \<open>
  C8 (as amended): once the converter has succeeded and the mesh is loaded, hole filling
  and smoothing are each wrapped: a failure of hole filling leaves the mesh as it stood
  and adds a warning; smoothing either succeeds or adds one warning and leaves the mesh
  as it stood; and whenever face deduplication and the removal of unreferenced vertices
  succeed, the mesh that smoothing left is exported. Face deduplication and the removal
  of unreferenced vertices are not wrapped: an exception of either ends the stage with
  that exception, with no warning for it and nothing exported.
\<close>

theorem C8_wrapped_sub_steps:
  assumes "length sys_argv = 3"
    and "run [''assimp'', ''export'', sys_argv ! 1, ''temp.stl''] fs = (Exited 0, fs1)"
    and "load lib ''temp.stl'' fs1 = Inr mesh0"
  shows "let r = glb_to_stl lib run sys_argv fs;
             mesh1 = snd (fill_holes_step lib mesh0)
         in (\<forall>e. fill_holes lib mesh0 = Inl e \<longrightarrow>
               mesh1 = mesh0 \<and> Warn ''Warning: Could not fill holes: '' e \<in> set (fst r)) \<and>
            (\<forall>mesh2. dedup_step lib mesh1 = Inr mesh2 \<longrightarrow>
               ((\<exists>mesh3. smoothing_step lib mesh2 = ([], mesh3)) \<or>
                (\<exists>e. smoothing_step lib mesh2 = ([Warn ''Warning: Could not smooth mesh: '' e], mesh2))) \<and>
               set (fst (smoothing_step lib mesh2)) \<subseteq> set (fst r) \<and>
               filter is_export_mesh (fst r) = [ExportMesh (snd (smoothing_step lib mesh2)) (sys_argv ! 2)]) \<and>
            (\<forall>e. dedup_step lib mesh1 = Inl e \<longrightarrow>
               snd (snd r) = Raised e \<and> filter is_export_mesh (fst r) = [] \<and>
               filter is_warn (fst r) = fst (fill_holes_step lib mesh0))"
proof -
  note r = glb_to_stl_after_load [where run = run and lib = lib, OF assms]
  have a: "\<forall>e. fill_holes lib mesh0 = Inl e \<longrightarrow>
               snd (fill_holes_step lib mesh0) = mesh0 \<and>
               Warn ''Warning: Could not fill holes: '' e \<in> set (fst (glb_to_stl lib run sys_argv fs))"
  proof (intro allI impI conjI)
    fix e assume f: "fill_holes lib mesh0 = Inl e"
    show "snd (fill_holes_step lib mesh0) = mesh0" by (simp add: fill_holes_step_warn [OF f])
    show "Warn ''Warning: Could not fill holes: '' e \<in> set (fst (glb_to_stl lib run sys_argv fs))"
      by (simp add: r Let_def fill_holes_step_warn [OF f] split: sum.splits)
  qed
  have b: "\<forall>mesh2. dedup_step lib (snd (fill_holes_step lib mesh0)) = Inr mesh2 \<longrightarrow>
               ((\<exists>mesh3. smoothing_step lib mesh2 = ([], mesh3)) \<or>
                (\<exists>e. smoothing_step lib mesh2 = ([Warn ''Warning: Could not smooth mesh: '' e], mesh2))) \<and>
               set (fst (smoothing_step lib mesh2)) \<subseteq> set (fst (glb_to_stl lib run sys_argv fs)) \<and>
               filter is_export_mesh (fst (glb_to_stl lib run sys_argv fs)) =
                 [ExportMesh (snd (smoothing_step lib mesh2)) (sys_argv ! 2)]"
  proof (intro allI impI conjI)
    fix mesh2 assume d: "dedup_step lib (snd (fill_holes_step lib mesh0)) = Inr mesh2"
    show "(\<exists>mesh3. smoothing_step lib mesh2 = ([], mesh3)) \<or>
          (\<exists>e. smoothing_step lib mesh2 = ([Warn ''Warning: Could not smooth mesh: '' e], mesh2))"
      by (rule smoothing_step_cases)
    show "set (fst (smoothing_step lib mesh2)) \<subseteq> set (fst (glb_to_stl lib run sys_argv fs))"
      by (auto simp: r d Let_def split: sum.splits)
    show "filter is_export_mesh (fst (glb_to_stl lib run sys_argv fs)) =
            [ExportMesh (snd (smoothing_step lib mesh2)) (sys_argv ! 2)]"
      by (simp add: r d Let_def fill_holes_step_events smoothing_step_events split: sum.splits)
  qed
  have c: "\<forall>e. dedup_step lib (snd (fill_holes_step lib mesh0)) = Inl e \<longrightarrow>
               snd (snd (glb_to_stl lib run sys_argv fs)) = Raised e \<and>
               filter is_export_mesh (fst (glb_to_stl lib run sys_argv fs)) = [] \<and>
               filter is_warn (fst (glb_to_stl lib run sys_argv fs)) = fst (fill_holes_step lib mesh0)"
  proof (intro allI impI conjI)
    fix e assume d: "dedup_step lib (snd (fill_holes_step lib mesh0)) = Inl e"
    show "snd (snd (glb_to_stl lib run sys_argv fs)) = Raised e" by (simp add: r d Let_def)
    show "filter is_export_mesh (fst (glb_to_stl lib run sys_argv fs)) = []"
      by (simp add: r d Let_def fill_holes_step_events)
    show "filter is_warn (fst (glb_to_stl lib run sys_argv fs)) = fst (fill_holes_step lib mesh0)"
      by (simp add: r d Let_def fill_holes_step_warns)
  qed
  show ?thesis unfolding Let_def by (rule conjI [OF a conjI [OF b c]])
qed


theorem C8_wrapped_sub_steps_witness:
  "length repair_argv = 3 \<and>
   tools_ok [''assimp'', ''export'', repair_argv ! 1, ''temp.stl''] {''in.glb''} =
     (Exited 0, {''temp.stl'', ''in.glb''}) \<and>
   load lib_fill_fails ''temp.stl'' {''temp.stl'', ''in.glb''} = Inr 0 \<and>
   fill_holes lib_fill_fails 0 = Inl ValueError \<and>
   glb_to_stl lib_fill_fails tools_ok repair_argv {''in.glb''} =
     ([Say ''Converting in.glb to STL...'', RunTool [''assimp'', ''export'', ''in.glb'', ''temp.stl''],
       Say ''Loading and repairing mesh...'', Warn ''Warning: Could not fill holes: '' ValueError,
       Say ''Smoothing mesh...'', ExportMesh 1110 ''out.stl'',
       Say ''Repaired and smoothed STL saved as out.stl'', RemoveFile ''temp.stl''],
      {''out.stl'', ''in.glb''}, Returned)"
proof -
  have h1: "length repair_argv = 3" by (simp add: repair_argv_def)
  have h2: "tools_ok [''assimp'', ''export'', repair_argv ! 1, ''temp.stl''] {''in.glb''} =
     (Exited 0, {''temp.stl'', ''in.glb''})"
    by (simp add: tools_ok_def repair_argv_def)
  have h3: "load lib_fill_fails ''temp.stl'' {''temp.stl'', ''in.glb''} = Inr 0"
    by (simp add: lib_fill_fails_def good_lib_def)
  have h4: "fill_holes lib_fill_fails 0 = Inl ValueError"
    by (simp add: lib_fill_fails_def good_lib_def)
  have r: "glb_to_stl lib_fill_fails tools_ok repair_argv {''in.glb''} =
     ([Say ''Converting in.glb to STL...'', RunTool [''assimp'', ''export'', ''in.glb'', ''temp.stl''],
       Say ''Loading and repairing mesh...'', Warn ''Warning: Could not fill holes: '' ValueError,
       Say ''Smoothing mesh...'', ExportMesh 1110 ''out.stl'',
       Say ''Repaired and smoothed STL saved as out.stl'', RemoveFile ''temp.stl''],
      {''out.stl'', ''in.glb''}, Returned)"
    by (simp add: glb_to_stl_after_load [where run = tools_ok and lib = lib_fill_fails, OF h1 h2 h3] Let_def)
       (auto simp: repair_argv_def lib_fill_fails_def good_lib_def fill_holes_step_def
          dedup_step_def smoothing_step_def)
  from C8_wrapped_sub_steps [where run = tools_ok and lib = lib_fill_fails, OF h1 h2 h3]
  have "Warn ''Warning: Could not fill holes: '' ValueError
          \<in> set (fst (glb_to_stl lib_fill_fails tools_ok repair_argv {''in.glb''}))"
    using h4 unfolding Let_def by blast
  with h1 h2 h3 h4 r show ?thesis by simp
qed

text \<open>
  The claim as written fails: when \<^verbatim>\<open>unique_faces\<close> raises, the stage ends with
  that exception after the message \<^verbatim>\<open>Loading and repairing mesh...\<close>; it prints no
  warning and exports nothing.
\<close>

theorem C8_dedup_counterexample:
  "unique_faces lib_dedup_fails (snd (fill_holes_step lib_dedup_fails 0)) = Inl OtherError \<and>
   glb_to_stl lib_dedup_fails tools_ok repair_argv {''in.glb''} =
     ([Say ''Converting in.glb to STL...'', RunTool [''assimp'', ''export'', ''in.glb'', ''temp.stl''],
       Say ''Loading and repairing mesh...''],
      {''temp.stl'', ''in.glb''}, Raised OtherError)"
proof -
  have h1: "length repair_argv = 3" by (simp add: repair_argv_def)
  have h2: "tools_ok [''assimp'', ''export'', repair_argv ! 1, ''temp.stl''] {''in.glb''} =
     (Exited 0, {''temp.stl'', ''in.glb''})"
    by (simp add: tools_ok_def repair_argv_def)
  have h3: "load lib_dedup_fails ''temp.stl'' {''temp.stl'', ''in.glb''} = Inr 0"
    by (simp add: lib_dedup_fails_def good_lib_def)
  show ?thesis
    by (simp add: glb_to_stl_after_load [where run = tools_ok and lib = lib_dedup_fails, OF h1 h2 h3] Let_def)
       (simp add: repair_argv_def lib_dedup_fails_def good_lib_def fill_holes_step_def dedup_step_def)
qed


section \<open>Properties of the pipeline driver\<close>

lemma temp_paths_distinct: "temp_smoothed_stl env \<noteq> temp_glb env"
  by (simp add: temp_smoothed_stl_def temp_glb_def path_join_def)

lemma clean_up_two:
  assumes "a \<noteq> b"
  shows "clean_up [a, b] fs =
     ((if a \<in> fs then [Remove a, Tell (''Cleaned up: '' @ a)] else []) @
      (if b \<in> fs then [Remove b, Tell (''Cleaned up: '' @ b)] else []),
      fs - {a, b})"
  using assms by (auto simp: clean_up_def clean_up_one_def)

lemma driver_repair_failed:
  assumes "3 \<le> length sys_argv" and "sys_argv ! 1 \<in> fs"
    and "run (repair_cmd env sys_argv) fs = (r1, fs1)" and "r1 \<noteq> Exited 0"
  shows "fst (snd (main_process_with_foundation env run sys_argv fs)) = fs1 \<and>
         filter is_remove (fst (main_process_with_foundation env run sys_argv fs)) = []"
  using assms
  by (cases r1) (simp_all add: main_process_with_foundation_def Let_def)

lemma driver_convert_failed:
  assumes "3 \<le> length sys_argv" and "sys_argv ! 1 \<in> fs"
    and "run (repair_cmd env sys_argv) fs = (Exited 0, fs1)"
    and "run (convert_cmd env) fs1 = (Exited rc, fs2)" and "rc \<noteq> 0"
  shows "fst (snd (main_process_with_foundation env run sys_argv fs)) = fs2 - {temp_smoothed_stl env} \<and>
         snd (snd (main_process_with_foundation env run sys_argv fs)) = Returned \<and>
         filter is_remove (fst (main_process_with_foundation env run sys_argv fs)) =
           (if temp_smoothed_stl env \<in> fs2 then [Remove (temp_smoothed_stl env)] else [])"
  using assms
  by (simp add: main_process_with_foundation_def Let_def remove_if_exists_def)

lemma driver_foundation_reached:
  assumes "3 \<le> length sys_argv" and "sys_argv ! 1 \<in> fs"
    and "run (repair_cmd env sys_argv) fs = (Exited 0, fs1)"
    and "run (convert_cmd env) fs1 = (Exited 0, fs2)"
    and "run (foundation_cmd env sys_argv) fs2 = (r3, fs3)"
  shows "fst (snd (main_process_with_foundation env run sys_argv fs)) =
           fs3 - {temp_smoothed_stl env, temp_glb env} \<and>
         filter is_remove (fst (main_process_with_foundation env run sys_argv fs)) =
           map Remove (filter (\<lambda>f. f \<in> fs3) [temp_smoothed_stl env, temp_glb env]) \<and>
         snd (snd (main_process_with_foundation env run sys_argv fs)) =
           (if r3 = NotStarted then Raised OSError else Returned)"
  using assms
  by (cases r3)
     (simp_all add: main_process_with_foundation_def Let_def clean_up_two [OF temp_paths_distinct])

lemma glb_to_stl_returned:
  assumes "snd (snd (glb_to_stl lib tools argv fs)) = Returned"
  shows "''temp.stl'' \<notin> fst (snd (glb_to_stl lib tools argv fs)) \<and>
         RemoveFile ''temp.stl'' \<in> set (fst (glb_to_stl lib tools argv fs))"
  using assms
  by (auto simp: glb_to_stl_def Let_def split_beta
      split: if_splits prod.splits proc_result.splits sum.splits)

text \<open>
  C7 (as amended): for a run of the driver that starts the repair stage, name the results
  of the three subprocesses \<open>r1\<close>, \<open>r2\<close>, \<open>r3\<close> and the files they leave
  \<open>fs1\<close>, \<open>fs2\<close>, \<open>fs3\<close>. When the repair stage does not exit with status 0 the
  driver removes nothing and returns with the files as that stage left them. When the
  conversion exits with a non-zero status the driver removes the temporary smoothed STL
  if it exists and returns. When the foundation stage is reached, then however it ends
  (status 0, a non-zero status, or a program that cannot be started) the driver removes
  the temporary smoothed STL and the temporary GLB, each if it exists, before it returns
  or re-raises. The repair stage itself removes its \<^verbatim>\<open>temp.stl\<close> when it runs to
  its end.
\<close>

theorem C7_cleanup_paths:
  assumes "3 \<le> length sys_argv" and "sys_argv ! 1 \<in> fs"
    and "run (repair_cmd env sys_argv) fs = (r1, fs1)"
    and "run (convert_cmd env) fs1 = (r2, fs2)"
    and "run (foundation_cmd env sys_argv) fs2 = (r3, fs3)"
  shows "(let r = main_process_with_foundation env run sys_argv fs in
     (r1 \<noteq> Exited 0 \<longrightarrow> fst (snd r) = fs1 \<and> filter is_remove (fst r) = []) \<and>
     (r1 = Exited 0 \<and> (\<exists>rc. rc \<noteq> 0 \<and> r2 = Exited rc) \<longrightarrow>
        fst (snd r) = fs2 - {temp_smoothed_stl env} \<and> snd (snd r) = Returned \<and>
        filter is_remove (fst r) =
          (if temp_smoothed_stl env \<in> fs2 then [Remove (temp_smoothed_stl env)] else [])) \<and>
     (r1 = Exited 0 \<and> r2 = Exited 0 \<longrightarrow>
        fst (snd r) = fs3 - {temp_smoothed_stl env, temp_glb env} \<and>
        filter is_remove (fst r) =
          map Remove (filter (\<lambda>f. f \<in> fs3) [temp_smoothed_stl env, temp_glb env]) \<and>
        snd (snd r) = (if r3 = NotStarted then Raised OSError else Returned))) \<and>
   (let g = glb_to_stl lib tools argv gfs in
     snd (snd g) = Returned \<longrightarrow>
       ''temp.stl'' \<notin> fst (snd g) \<and> RemoveFile ''temp.stl'' \<in> set (fst g))"
proof -
  have a: "r1 \<noteq> Exited 0 \<longrightarrow>
      fst (snd (main_process_with_foundation env run sys_argv fs)) = fs1 \<and>
      filter is_remove (fst (main_process_with_foundation env run sys_argv fs)) = []"
    using driver_repair_failed [where run = run and env = env, OF assms(1,2,3)] by blast
  have b: "r1 = Exited 0 \<and> (\<exists>rc. rc \<noteq> 0 \<and> r2 = Exited rc) \<longrightarrow>
        fst (snd (main_process_with_foundation env run sys_argv fs)) = fs2 - {temp_smoothed_stl env} \<and>
        snd (snd (main_process_with_foundation env run sys_argv fs)) = Returned \<and>
        filter is_remove (fst (main_process_with_foundation env run sys_argv fs)) =
          (if temp_smoothed_stl env \<in> fs2 then [Remove (temp_smoothed_stl env)] else [])"
    using driver_convert_failed [where run = run and env = env, OF assms(1,2)] assms(3,4) by blast
  have c: "r1 = Exited 0 \<and> r2 = Exited 0 \<longrightarrow>
        fst (snd (main_process_with_foundation env run sys_argv fs)) =
          fs3 - {temp_smoothed_stl env, temp_glb env} \<and>
        filter is_remove (fst (main_process_with_foundation env run sys_argv fs)) =
          map Remove (filter (\<lambda>f. f \<in> fs3) [temp_smoothed_stl env, temp_glb env]) \<and>
        snd (snd (main_process_with_foundation env run sys_argv fs)) =
          (if r3 = NotStarted then Raised OSError else Returned)"
    using driver_foundation_reached [where run = run and env = env, OF assms(1,2)] assms(3,4,5) by blast
  have d: "snd (snd (glb_to_stl lib tools argv gfs)) = Returned \<longrightarrow>
       ''temp.stl'' \<notin> fst (snd (glb_to_stl lib tools argv gfs)) \<and>
       RemoveFile ''temp.stl'' \<in> set (fst (glb_to_stl lib tools argv gfs))"
    using glb_to_stl_returned by blast
  show ?thesis unfolding Let_def
    by (rule conjI [OF conjI [OF a conjI [OF b c]] d])
qed


lemma example_paths:
  "temp_smoothed_stl example_env = ''/tmp/smoothed_temp.stl''"
  "temp_glb example_env = ''/tmp/smoothed_temp.glb''"
  "glb_to_stl_script example_env = ''/app/glb_to_stl.py''"
  "add_foundation_script example_env = ''/app/add_foundation_blender.py''"
  by (simp_all add: temp_smoothed_stl_def temp_glb_def glb_to_stl_script_def
      add_foundation_script_def example_env_def path_join_def)

lemma example_python: "sys_executable example_env = ''python3''"
  by (simp add: example_env_def)

lemma pipeline_argv_simps:
  "length pipeline_argv = 3"
  "pipeline_argv ! 1 = ''model.glb''" "pipeline_argv ! Suc 0 = ''model.glb''"
  "pipeline_argv ! 2 = ''out.stl''" "pipeline_argv ! Suc (Suc 0) = ''out.stl''"
  by (simp_all add: pipeline_argv_def)

lemma example_cmds:
  "repair_cmd example_env pipeline_argv =
     [''python3'', ''/app/glb_to_stl.py'', ''model.glb'', ''/tmp/smoothed_temp.stl'']"
  "convert_cmd example_env =
     [''assimp'', ''export'', ''/tmp/smoothed_temp.stl'', ''/tmp/smoothed_temp.glb'']"
  "foundation_cmd example_env pipeline_argv =
     [''blender'', ''--background'', ''--python'', ''/app/add_foundation_blender.py'', ''--'',
      ''/tmp/smoothed_temp.glb'', ''out.stl'', ''0.1'', ''0.05'']"
  by (simp_all add: repair_cmd_def convert_cmd_def foundation_cmd_def example_paths
      pipeline_argv_simps example_python)

lemma assimp_temp_stl:
  "tools_ok [''assimp'', ''export'', ''model.glb'', ''temp.stl''] {''model.glb''} =
     (Exited 0, {''temp.stl'', ''model.glb''})"
  by (simp add: tools_ok_def)

lemma glb_to_stl_good:
  "glb_to_stl good_lib tools_ok [''/app/glb_to_stl.py'', ''model.glb'', ''/tmp/smoothed_temp.stl'']
     {''model.glb''} =
   ([Say ''Converting model.glb to STL...'', RunTool [''assimp'', ''export'', ''model.glb'', ''temp.stl''],
     Say ''Loading and repairing mesh...'', Say ''Smoothing mesh...'',
     ExportMesh 1111 ''/tmp/smoothed_temp.stl'',
     Say ''Repaired and smoothed STL saved as /tmp/smoothed_temp.stl'', RemoveFile ''temp.stl''],
    {''/tmp/smoothed_temp.stl'', ''model.glb''}, Returned)"
proof -
  have h1: "length [''/app/glb_to_stl.py'', ''model.glb'', ''/tmp/smoothed_temp.stl''] = 3" by simp
  have h2: "tools_ok [''assimp'', ''export'',
              [''/app/glb_to_stl.py'', ''model.glb'', ''/tmp/smoothed_temp.stl''] ! 1, ''temp.stl'']
              {''model.glb''} = (Exited 0, {''temp.stl'', ''model.glb''})"
    by (simp add: assimp_temp_stl)
  have h3: "load good_lib ''temp.stl'' {''temp.stl'', ''model.glb''} = Inr 0"
    by (simp add: good_lib_def)
  show ?thesis
    by (simp add: glb_to_stl_after_load [where run = tools_ok and lib = good_lib, OF h1 h2 h3] Let_def)
       (auto simp: good_lib_def fill_holes_step_def dedup_step_def smoothing_step_def)
qed

lemma glb_to_stl_load_fails:
  "glb_to_stl lib_load_fails tools_ok [''/app/glb_to_stl.py'', ''model.glb'', ''/tmp/smoothed_temp.stl'']
     {''model.glb''} =
   ([Say ''Converting model.glb to STL...'', RunTool [''assimp'', ''export'', ''model.glb'', ''temp.stl''],
     Say ''Loading and repairing mesh...''],
    {''temp.stl'', ''model.glb''}, Raised ValueError)"
  by (simp add: glb_to_stl_def Let_def assimp_temp_stl)
     (simp add: lib_load_fails_def good_lib_def)

lemma repair_good:
  "run_with_repair good_lib example_env tools_ok
     [''python3'', ''/app/glb_to_stl.py'', ''model.glb'', ''/tmp/smoothed_temp.stl''] {''model.glb''} =
   (Exited 0, {''/tmp/smoothed_temp.stl'', ''model.glb''})"
  by (simp add: run_with_repair_def example_paths example_python glb_to_stl_good)

lemma repair_load_fails:
  "run_with_repair lib_load_fails example_env tools_ok
     [''python3'', ''/app/glb_to_stl.py'', ''model.glb'', ''/tmp/smoothed_temp.stl''] {''model.glb''} =
   (Exited 1, {''temp.stl'', ''model.glb''})"
  by (simp add: run_with_repair_def example_paths example_python glb_to_stl_load_fails)

lemma no_assimp_steps:
  "tools_no_assimp [''python3'', ''/app/glb_to_stl.py'', ''model.glb'', ''/tmp/smoothed_temp.stl'']
     {''model.glb''} = (Exited 0, {''/tmp/smoothed_temp.stl'', ''model.glb''})"
  "tools_no_assimp [''assimp'', ''export'', ''/tmp/smoothed_temp.stl'', ''/tmp/smoothed_temp.glb''] fs =
     (NotStarted, fs)"
  by (simp_all add: tools_no_assimp_def)

lemma convert_good:
  "run_with_repair good_lib example_env tools_ok
     [''assimp'', ''export'', ''/tmp/smoothed_temp.stl'', ''/tmp/smoothed_temp.glb'']
     {''/tmp/smoothed_temp.stl'', ''model.glb''} =
   (Exited 0, {''/tmp/smoothed_temp.glb'', ''/tmp/smoothed_temp.stl'', ''model.glb''})"
  by (simp add: run_with_repair_def example_paths tools_ok_def example_python)

lemma foundation_good:
  "run_with_repair good_lib example_env tools_ok
     [''blender'', ''--background'', ''--python'', ''/app/add_foundation_blender.py'', ''--'',
      ''/tmp/smoothed_temp.glb'', ''out.stl'', ''0.1'', ''0.05'']
     {''/tmp/smoothed_temp.glb'', ''/tmp/smoothed_temp.stl'', ''model.glb''} =
   (Exited 0, {''out.stl'', ''/tmp/smoothed_temp.glb'', ''/tmp/smoothed_temp.stl'', ''model.glb''})"
  by (simp add: run_with_repair_def example_paths tools_ok_def example_python)

lemma example_leftover:
  "{''out.stl'', ''/tmp/smoothed_temp.glb'', ''/tmp/smoothed_temp.stl'', ''model.glb''} -
     {''/tmp/smoothed_temp.stl'', ''/tmp/smoothed_temp.glb''} = {''out.stl'', ''model.glb''}"
  by (simp add: insert_Diff_if)

theorem C7_cleanup_paths_witness:
  "(3::nat) \<le> length pipeline_argv \<and> pipeline_argv ! 1 \<in> {''model.glb''} \<and>
   run_with_repair good_lib example_env tools_ok (repair_cmd example_env pipeline_argv) {''model.glb''} =
     (Exited 0, {''/tmp/smoothed_temp.stl'', ''model.glb''}) \<and>
   run_with_repair good_lib example_env tools_ok (convert_cmd example_env)
       {''/tmp/smoothed_temp.stl'', ''model.glb''} =
     (Exited 0, {''/tmp/smoothed_temp.glb'', ''/tmp/smoothed_temp.stl'', ''model.glb''}) \<and>
   fst (snd (main_process_with_foundation example_env (run_with_repair good_lib example_env tools_ok)
               pipeline_argv {''model.glb''})) = {''out.stl'', ''model.glb''} \<and>
   filter is_remove
     (fst (main_process_with_foundation example_env (run_with_repair good_lib example_env tools_ok)
               pipeline_argv {''model.glb''})) =
     [Remove ''/tmp/smoothed_temp.stl'', Remove ''/tmp/smoothed_temp.glb''] \<and>
   snd (snd (main_process_with_foundation example_env (run_with_repair good_lib example_env tools_ok)
               pipeline_argv {''model.glb''})) = Returned"
proof -
  have h1: "3 \<le> length pipeline_argv" by (simp add: pipeline_argv_simps)
  have h2: "pipeline_argv ! 1 \<in> {''model.glb''}" by (simp add: pipeline_argv_simps)
  have h3: "run_with_repair good_lib example_env tools_ok (repair_cmd example_env pipeline_argv)
              {''model.glb''} = (Exited 0, {''/tmp/smoothed_temp.stl'', ''model.glb''})"
    by (simp add: example_cmds repair_good)
  have h4: "run_with_repair good_lib example_env tools_ok (convert_cmd example_env)
              {''/tmp/smoothed_temp.stl'', ''model.glb''} =
            (Exited 0, {''/tmp/smoothed_temp.glb'', ''/tmp/smoothed_temp.stl'', ''model.glb''})"
    by (simp add: example_cmds convert_good)
  have h5: "run_with_repair good_lib example_env tools_ok (foundation_cmd example_env pipeline_argv)
              {''/tmp/smoothed_temp.glb'', ''/tmp/smoothed_temp.stl'', ''model.glb''} =
            (Exited 0, {''out.stl'', ''/tmp/smoothed_temp.glb'', ''/tmp/smoothed_temp.stl'', ''model.glb''})"
    by (simp add: example_cmds foundation_good)
  note c7 = C7_cleanup_paths [where run = "run_with_repair good_lib example_env tools_ok"
      and env = example_env and lib = good_lib and tools = tools_ok and argv = "[]" and gfs = "{}",
      OF h1 h2 h3 h4 h5, unfolded Let_def, THEN conjunct1, THEN conjunct2, THEN conjunct2]
  from c7 h1 h2 h3 h4 show ?thesis
    by (simp add: example_paths example_leftover)
qed

text \<open>
  The claim as written fails. When \<^verbatim>\<open>trimesh.load\<close> raises in the repair stage, the
  converter has already written \<^verbatim>\<open>temp.stl\<close>; the stage exits with status 1, the
  driver prints its error and returns, and \<^verbatim>\<open>temp.stl\<close> is still there: no removal
  was attempted. And when the converter of the second step cannot be started, the
  exception is not the one the driver catches, and the temporary smoothed STL that the
  first step created stays.
\<close>

theorem C7_leftover_counterexample:
  "''temp.stl'' \<notin> {''model.glb''} \<and>
   main_process_with_foundation example_env (run_with_repair lib_load_fails example_env tools_ok)
       pipeline_argv {''model.glb''} =
     ([Tell ''Step 1: Smoothing GLB with trimesh...'',
       Run [''python3'', ''/app/glb_to_stl.py'', ''model.glb'', ''/tmp/smoothed_temp.stl''],
       TellError ''Error in trimesh smoothing: ''
         [''python3'', ''/app/glb_to_stl.py'', ''model.glb'', ''/tmp/smoothed_temp.stl''] 1],
      {''temp.stl'', ''model.glb''}, Returned) \<and>
   main_process_with_foundation example_env tools_no_assimp pipeline_argv {''model.glb''} =
     ([Tell ''Step 1: Smoothing GLB with trimesh...'',
       Run [''python3'', ''/app/glb_to_stl.py'', ''model.glb'', ''/tmp/smoothed_temp.stl''],
       Tell ''Smoothed STL created: /tmp/smoothed_temp.stl'',
       Tell ''Step 2: Converting smoothed STL to temporary GLB...'',
       Run [''assimp'', ''export'', ''/tmp/smoothed_temp.stl'', ''/tmp/smoothed_temp.glb'']],
      {''/tmp/smoothed_temp.stl'', ''model.glb''}, Raised OSError)"
  by (simp add: main_process_with_foundation_def Let_def example_cmds example_paths
      repair_load_fails no_assimp_steps pipeline_argv_simps)


end
